theory Spec2Isabelle
  imports Main
begin

section \<open>Data model: the tables of the permission subsystem\<close>

text \<open>
  The program keeps its state in PostgreSQL tables (\<^verbatim>\<open>src/database/migrate.js\<close>). Each
  table is a list of rows, each row a record of the columns that the handlers below read or
  write. Roles and permission levels are free-form strings, as in the source. A value of a
  column of type \<^verbatim>\<open>UUID\<close> is the text that PostgreSQL prints for it: 32 hexadecimal digits
  in lower case, in groups of 8, 4, 4, 4 and 12. An identifier of a request is any string;
  it becomes such a value where a query takes it as a parameter (\<open>pg_uuid\<close> below). The
  identifier of the requester is the one that the authentication middleware has read from
  the table of users, and so a value. Messages of the source are French; their accented
  letters are written without the accent here.
\<close>

type_synonym uuid = string

record workspace_row =
  w_id :: uuid
  w_owner_id :: uuid

record member_row =
  wm_workspace_id :: uuid
  wm_user_id :: uuid
  wm_role :: string

record board_row =
  b_id :: uuid
  b_workspace_id :: uuid

record role_row =
  r_id :: uuid
  r_workspace_id :: uuid
  r_name :: string
  r_description :: "string option"
  r_color :: string

record permission_row =
  p_id :: uuid
  p_code :: string

record role_permission_row =
  rp_role_id :: uuid
  rp_permission_id :: uuid

record user_role_row =
  ur_user_id :: uuid
  ur_workspace_id :: uuid
  ur_role_id :: uuid

text \<open>\<^verbatim>\<open>board_permissions\<close>, \<^verbatim>\<open>project_permissions\<close> and the two group
  tables \<^verbatim>\<open>board_group_permissions\<close>, \<^verbatim>\<open>project_group_permissions\<close> have the same
  columns: a resource, a subject (a user or a group), a level and who granted it.\<close>

record level_row =
  lp_resource_id :: uuid
  lp_subject_id :: uuid
  lp_permission_level :: string
  lp_granted_by :: uuid

record project_row =
  pr_id :: uuid
  pr_workspace_id :: uuid

record group_row =
  g_id :: uuid
  g_workspace_id :: uuid

record group_member_row =
  gm_group_id :: uuid
  gm_user_id :: uuid

datatype snapshot = RoleSnapshot string "string list option"

record audit_row =
  al_workspace_id :: uuid
  al_action :: string
  al_entity_type :: string
  al_entity_id :: uuid
  al_target_user_id :: "uuid option"
  al_performed_by :: uuid
  al_old_value :: "snapshot option"
  al_new_value :: "snapshot option"

text \<open>Of the table \<^verbatim>\<open>users\<close> only the identifiers matter here: the other tables refer
  to them.\<close>

record db =
  users :: "uuid list"
  workspaces :: "workspace_row list"
  workspace_members :: "member_row list"
  boards :: "board_row list"
  workspace_roles :: "role_row list"
  permissions :: "permission_row list"
  role_permissions :: "role_permission_row list"
  user_roles :: "user_role_row list"
  sdsi_projects :: "project_row list"
  board_permissions :: "level_row list"
  project_permissions :: "level_row list"
  user_groups :: "group_row list"
  user_group_members :: "group_member_row list"
  board_group_permissions :: "level_row list"
  project_group_permissions :: "level_row list"
  permission_audit_logs :: "audit_row list"

text \<open>What a middleware or a handler answers: \<^verbatim>\<open>next()\<close>, or a status with a body.\<close>

datatype body =
  Error string
  | Errors
  | Message string
  | RoleJson uuid string "string option" string "string list"
  | WorkspaceJson uuid string uuid string

datatype reply = Next | Reply nat body

section \<open>JavaScript helpers\<close>

text \<open>\<^verbatim>\<open>a || b\<close> on values that are a string or undefined: the empty string is falsy.\<close>

definition js_or :: "string option \<Rightarrow> string option \<Rightarrow> string option" where
  "js_or a b = (case a of None \<Rightarrow> b | Some s \<Rightarrow> (if s = [] then b else Some s))"

text \<open>Postgres error codes that the handlers can meet.\<close>

definition unique_violation :: string where
  "unique_violation = ''23505''"

definition not_null_violation :: string where
  "not_null_violation = ''23502''"

definition string_data_right_truncation :: string where
  "string_data_right_truncation = ''22001''"

definition invalid_text_representation :: string where
  "invalid_text_representation = ''22P02''"

definition foreign_key_violation :: string where
  "foreign_key_violation = ''23503''"

text \<open>A transaction is the snapshot taken at \<^verbatim>\<open>BEGIN\<close>; after \<^verbatim>\<open>COMMIT\<close> there is none,
  and \<^verbatim>\<open>ROLLBACK\<close> then changes nothing.\<close>

definition ROLLBACK :: "db option \<Rightarrow> db \<Rightarrow> db" where
  "ROLLBACK tx d = (case tx of Some d0 \<Rightarrow> d0 | None \<Rightarrow> d)"

text \<open>A \<^verbatim>\<open>LEFT JOIN\<close> keeps the left row, with nulls, when nothing matches.\<close>

definition left_join :: "'a list \<Rightarrow> 'a option list" where
  "left_join xs = (if xs = [] then [None] else map Some xs)"

text \<open>A hexadecimal digit, for the identifiers below.\<close>

definition is_hex :: "char \<Rightarrow> bool" where
  "is_hex c = (c \<in> set ''0123456789abcdefABCDEF'')"

section \<open>What PostgreSQL does with a parameter\<close>

text \<open>
  A parameter of type \<^verbatim>\<open>UUID\<close> arrives as text. PostgreSQL reads 16 bytes of two
  hexadecimal digits each, in either case; a hyphen may follow the second, fourth, ... ,
  fourteenth byte; the whole may stand in braces; nothing may follow. Any other text is the
  error 22P02, which the driver throws. The value is printed in lower case with the four
  usual hyphens. \<open>pg_uuid\<close> is the value of a text, or \<open>None\<close> for the error.
\<close>

definition lower :: "char \<Rightarrow> char" where
  "lower c =
     (if c = CHR ''A'' then CHR ''a'' else if c = CHR ''B'' then CHR ''b''
      else if c = CHR ''C'' then CHR ''c'' else if c = CHR ''D'' then CHR ''d''
      else if c = CHR ''E'' then CHR ''e'' else if c = CHR ''F'' then CHR ''f'' else c)"

definition hyphen_after :: "bool list" where
  "hyphen_after = [False, True, False, True, False, True, False, True,
                   False, True, False, True, False, True, False, False]"

primrec uuid_bytes :: "bool list \<Rightarrow> string \<Rightarrow> (string \<times> string) option" where
  "uuid_bytes [] src = Some ([], src)"
| "uuid_bytes (hyphen # flags) src =
     (case src of
        [] \<Rightarrow> None
      | high # src1 \<Rightarrow>
          (case src1 of
             [] \<Rightarrow> None
           | low # src2 \<Rightarrow>
               if is_hex high \<and> is_hex low
               then
                 (case uuid_bytes flags
                         (if hyphen \<and> take 1 src2 = ''-'' then drop 1 src2 else src2) of
                    None \<Rightarrow> None
                  | Some (digits, rest) \<Rightarrow> Some (lower high # lower low # digits, rest))
               else None))"

definition uuid_out :: "string \<Rightarrow> uuid" where
  "uuid_out digits =
     take 8 digits @ ''-'' @ take 4 (drop 8 digits) @ ''-'' @ take 4 (drop 12 digits) @ ''-'' @
     take 4 (drop 16 digits) @ ''-'' @ drop 20 digits"

definition pg_uuid :: "string \<Rightarrow> uuid option" where
  "pg_uuid s =
     (let braces = (take 1 s = ''{'') in
        (case uuid_bytes hyphen_after (if braces then drop 1 s else s) of
           None \<Rightarrow> None
         | Some (digits, rest) \<Rightarrow>
             if rest = (if braces then ''}'' else []) then Some (uuid_out digits) else None))"

text \<open>
  A string stored in a column \<^verbatim>\<open>VARCHAR(n)\<close>: one that is too long is the error 22001,
  unless the characters in excess are all spaces; then it is cut to \<open>n\<close> characters (the
  strings are taken to be ASCII, without the character NUL).
\<close>

definition varchar :: "nat \<Rightarrow> string \<Rightarrow> string + string" where
  "varchar n s =
     (if length s \<le> n then Inr s
      else if list_all (\<lambda>c. c = CHR '' '') (drop n s) then Inr (take n s)
      else Inl string_data_right_truncation)"

section \<open>The validators of the routes\<close>

text \<open>The validators of express-validator that the routes use. The library is not part of
  the repository: \<^verbatim>\<open>isUUID()\<close> is the pattern 8-4-4-4-12 of hexadecimal digits,
  \<^verbatim>\<open>trim()\<close> strips white space at both ends (ASCII white space here).\<close>

definition isUUID :: "string \<Rightarrow> bool" where
  "isUUID s =
     (length s = 36 \<and>
      list_all is_hex (take 8 s) \<and> take 1 (drop 8 s) = ''-'' \<and>
      list_all is_hex (take 4 (drop 9 s)) \<and> take 1 (drop 13 s) = ''-'' \<and>
      list_all is_hex (take 4 (drop 14 s)) \<and> take 1 (drop 18 s) = ''-'' \<and>
      list_all is_hex (take 4 (drop 19 s)) \<and> take 1 (drop 23 s) = ''-'' \<and>
      list_all is_hex (drop 24 s))"

definition js_space :: "char \<Rightarrow> bool" where
  "js_space c = (c \<in> set [CHR '' '', CHR 0x09, CHR 0x0A, CHR 0x0B, CHR 0x0C, CHR 0x0D])"

definition trim :: "string \<Rightarrow> string" where
  "trim s = rev (dropWhile js_space (rev (dropWhile js_space s)))"

definition admin_roles :: "string list" where
  "admin_roles = [''owner'', ''admin'']"

section \<open>The authorisation middleware (auth.middleware)\<close>

text \<open>The query \<^verbatim>\<open>SELECT role FROM workspace_members WHERE workspace_id = $1 AND user_id = $2\<close>.\<close>

definition member_roles :: "db \<Rightarrow> uuid \<Rightarrow> uuid \<Rightarrow> string list" where
  "member_roles d workspaceId userId =
     [wm_role wm. wm \<leftarrow> workspace_members d,
        wm_workspace_id wm = workspaceId \<and> wm_user_id wm = userId]"

text \<open>The counting query of \<^verbatim>\<open>checkPermission\<close>: \<^verbatim>\<open>user_roles\<close> joined with
  \<^verbatim>\<open>role_permissions\<close> and \<^verbatim>\<open>permissions\<close>.\<close>

definition permission_count :: "db \<Rightarrow> uuid \<Rightarrow> uuid \<Rightarrow> string \<Rightarrow> nat" where
  "permission_count d userId workspaceId permissionCode =
     length [(ur, rp, p). ur \<leftarrow> user_roles d, rp \<leftarrow> role_permissions d, p \<leftarrow> permissions d,
        rp_role_id rp = ur_role_id ur, p_id p = rp_permission_id rp,
        ur_user_id ur = userId \<and> ur_workspace_id ur = workspaceId \<and> p_code p = permissionCode]"

definition permission_required :: "string \<Rightarrow> string" where
  "permission_required permissionCode =
     ''Permission '' @ [CHR 0x22] @ permissionCode @ [CHR 0x22] @ '' requise''"

text \<open>The middleware answers 500 when a query throws: here, when the workspace identifier
  of the request is not the text of a UUID.\<close>

definition checkPermission ::
  "string \<Rightarrow> db \<Rightarrow> uuid \<Rightarrow> string option \<Rightarrow> string option \<Rightarrow> reply" where
  "checkPermission permissionCode d userId params_workspaceId body_workspaceId =
     (case js_or params_workspaceId body_workspaceId of
        None \<Rightarrow> Reply 400 (Error ''ID du workspace requis'')
      | Some workspaceId \<Rightarrow>
          (if workspaceId = [] then Reply 400 (Error ''ID du workspace requis'')
           else
             (case pg_uuid workspaceId of
                None \<Rightarrow> Reply 500 (Error ''Erreur de verification des permissions'')
              | Some workspace_id \<Rightarrow>
                  (case member_roles d workspace_id userId of
                     [] \<Rightarrow> Reply 403 (Error ''Acces au workspace non autorise'')
                   | wsRole # _ \<Rightarrow>
                       if wsRole \<in> set admin_roles then Next
                       else if permission_count d userId workspace_id permissionCode > 0 then Next
                       else Reply 403 (Error (permission_required permissionCode))))))"

text \<open>The joined query of \<^verbatim>\<open>checkBoardAccess\<close>: boards joined with the requester's
  memberships of the board's workspace.\<close>

definition board_access_rows :: "db \<Rightarrow> uuid \<Rightarrow> uuid \<Rightarrow> (board_row \<times> string) list" where
  "board_access_rows d boardId userId =
     [(b, wm_role wm). b \<leftarrow> boards d, wm \<leftarrow> workspace_members d,
        wm_workspace_id wm = b_workspace_id b, b_id b = boardId \<and> wm_user_id wm = userId]"

definition access_check_error :: reply where
  "access_check_error = Reply 500 (Error (''Erreur de verification d'' @ [CHR 0x27] @ ''acces''))"

definition checkBoardAccess :: "db \<Rightarrow> uuid \<Rightarrow> string option \<Rightarrow> string option \<Rightarrow> reply" where
  "checkBoardAccess d userId params_boardId body_boardId =
     (case js_or params_boardId body_boardId of
        None \<Rightarrow> Reply 400 (Error ''ID du board requis'')
      | Some boardId \<Rightarrow>
          (if boardId = [] then Reply 400 (Error ''ID du board requis'')
           else
             (case pg_uuid boardId of
                None \<Rightarrow> access_check_error
              | Some board_id \<Rightarrow>
                  (case board_access_rows d board_id userId of
                     [] \<Rightarrow> Reply 403 (Error ''Acces au board non autorise'')
                   | _ # _ \<Rightarrow> Next))))"

text \<open>\<^verbatim>\<open>checkWorkspaceAccess\<close> answers, or calls \<^verbatim>\<open>next()\<close> after it has stored the
  requester's role in \<^verbatim>\<open>req.workspaceRole\<close>: the result is the reply or that role.\<close>

definition checkWorkspaceAccess ::
  "db \<Rightarrow> uuid \<Rightarrow> string option \<Rightarrow> string option \<Rightarrow> reply + string" where
  "checkWorkspaceAccess d userId params_workspaceId body_workspaceId =
     (case js_or params_workspaceId body_workspaceId of
        None \<Rightarrow> Inl (Reply 400 (Error ''ID du workspace requis''))
      | Some workspaceId \<Rightarrow>
          (if workspaceId = [] then Inl (Reply 400 (Error ''ID du workspace requis''))
           else
             (case pg_uuid workspaceId of
                None \<Rightarrow> Inl access_check_error
              | Some workspace_id \<Rightarrow>
                  (case member_roles d workspace_id userId of
                     [] \<Rightarrow> Inl (Reply 403 (Error ''Acces au workspace non autorise''))
                   | role # _ \<Rightarrow> Inr role))))"

section \<open>Custom roles (permission.routes)\<close>

text \<open>
  The statements that can fail are functions into \<open>string + db\<close>: \<open>Inl\<close> carries the
  Postgres error code that the driver throws. The constraints written out are the
  \<^verbatim>\<open>UNIQUE\<close> ones of the tables, the lengths of the \<^verbatim>\<open>VARCHAR\<close> columns, and the
  foreign keys to rows that the handler has not read before. A fresh identifier, which the
  database draws with \<^verbatim>\<open>uuid_generate_v4()\<close>, is an argument of the handler.
\<close>

text \<open>\<^verbatim>\<open>INSERT INTO workspace_roles ... RETURNING *\<close>: the name is a \<^verbatim>\<open>VARCHAR(100)\<close>,
  the color a \<^verbatim>\<open>VARCHAR(7)\<close>, and the workspace has one role of a name. The result is the
  row as stored.\<close>

definition insert_workspace_role :: "db \<Rightarrow> role_row \<Rightarrow> string + role_row \<times> db" where
  "insert_workspace_role d r =
     (case varchar 100 (r_name r) of
        Inl e \<Rightarrow> Inl e
      | Inr name \<Rightarrow>
          (case varchar 7 (r_color r) of
             Inl e \<Rightarrow> Inl e
           | Inr color \<Rightarrow>
               let role = r\<lparr>r_name := name, r_color := color\<rparr> in
                 if \<exists>r' \<in> set (workspace_roles d).
                      r_workspace_id r' = r_workspace_id role \<and> r_name r' = r_name role
                 then Inl unique_violation
                 else Inr (role, d\<lparr>workspace_roles := workspace_roles d @ [role]\<rparr>)))"

text \<open>\<^verbatim>\<open>SELECT id FROM permissions WHERE code = $1\<close>.\<close>

definition permission_ids :: "db \<Rightarrow> string \<Rightarrow> uuid list" where
  "permission_ids d permCode = [p_id p. p \<leftarrow> permissions d, p_code p = permCode]"

text \<open>\<^verbatim>\<open>INSERT INTO role_permissions ... ON CONFLICT DO NOTHING\<close> (role creation) and the
  plain \<^verbatim>\<open>INSERT\<close> (role update), which the constraint \<^verbatim>\<open>UNIQUE(role_id, permission_id)\<close>
  can refuse.\<close>

definition has_role_permission :: "db \<Rightarrow> uuid \<Rightarrow> uuid \<Rightarrow> bool" where
  "has_role_permission d roleId permissionId =
     (\<exists>rp \<in> set (role_permissions d). rp_role_id rp = roleId \<and> rp_permission_id rp = permissionId)"

definition insert_role_permission_do_nothing :: "db \<Rightarrow> uuid \<Rightarrow> uuid \<Rightarrow> db" where
  "insert_role_permission_do_nothing d roleId permissionId =
     (if has_role_permission d roleId permissionId then d
      else d\<lparr>role_permissions := role_permissions d @
                [\<lparr>rp_role_id = roleId, rp_permission_id = permissionId\<rparr>]\<rparr>)"

definition insert_role_permission :: "db \<Rightarrow> uuid \<Rightarrow> uuid \<Rightarrow> string + db" where
  "insert_role_permission d roleId permissionId =
     (if has_role_permission d roleId permissionId then Inl unique_violation
      else Inr (d\<lparr>role_permissions := role_permissions d @
                [\<lparr>rp_role_id = roleId, rp_permission_id = permissionId\<rparr>]\<rparr>))"

text \<open>The loop over the requested codes, in role creation and in role update.\<close>

fun add_permissions :: "db \<Rightarrow> uuid \<Rightarrow> string list \<Rightarrow> db" where
  "add_permissions d roleId [] = d"
| "add_permissions d roleId (permCode # rest) =
     (case permission_ids d permCode of
        [] \<Rightarrow> add_permissions d roleId rest
      | permissionId # _ \<Rightarrow>
          add_permissions (insert_role_permission_do_nothing d roleId permissionId) roleId rest)"

fun replace_permissions :: "db \<Rightarrow> uuid \<Rightarrow> string list \<Rightarrow> string + db" where
  "replace_permissions d roleId [] = Inr d"
| "replace_permissions d roleId (permCode # rest) =
     (case permission_ids d permCode of
        [] \<Rightarrow> replace_permissions d roleId rest
      | permissionId # _ \<Rightarrow>
          (case insert_role_permission d roleId permissionId of
             Inl e \<Rightarrow> Inl e
           | Inr d' \<Rightarrow> replace_permissions d' roleId rest))"

text \<open>The insertion into \<^verbatim>\<open>permission_audit_logs\<close> goes through the pool, outside the
  transaction. \<open>fault\<close> is the error, if any, that the storage raises on it.\<close>

definition insert_audit :: "string option \<Rightarrow> db \<Rightarrow> audit_row \<Rightarrow> string + db" where
  "insert_audit fault d a =
     (case fault of
        Some e \<Rightarrow> Inl e
      | None \<Rightarrow> Inr (d\<lparr>permission_audit_logs := permission_audit_logs d @ [a]\<rparr>))"

record create_role_body =
  cr_workspaceId :: string
  cr_name :: string
  cr_description :: "string option"
  cr_color :: "string option"
  cr_permissions :: "string list option"

definition create_role_error :: "string \<Rightarrow> reply" where
  "create_role_error e =
     (if e = unique_violation then Reply 400 (Error ''Un role avec ce nom existe deja'')
      else Reply 500 (Error ''Erreur''))"

text \<open>\<^verbatim>\<open>POST /roles\<close>. \<open>newId\<close> is the identifier that the database gives the role,
  \<open>audit_fault\<close> the failure, if any, of the audit insertion.\<close>

definition createRole ::
  "db \<Rightarrow> uuid \<Rightarrow> string option \<Rightarrow> uuid \<Rightarrow> create_role_body \<Rightarrow> db \<times> reply" where
  "createRole d newId audit_fault userId req =
     (if \<not> (isUUID (cr_workspaceId req) \<and> trim (cr_name req) \<noteq> []) then (d, Reply 400 Errors)
      else
        let name = trim (cr_name req);
            color = (case js_or (cr_color req) None of None \<Rightarrow> ''#6366f1'' | Some c \<Rightarrow> c)
        in
          (case pg_uuid (cr_workspaceId req) of
             None \<Rightarrow> (d, create_role_error invalid_text_representation)
           | Some workspaceId \<Rightarrow>
               (case member_roles d workspaceId userId of
                  [] \<Rightarrow> (d, Reply 403 (Error ''Acces non autorise''))
                | member_role # _ \<Rightarrow>
                    if member_role \<notin> set admin_roles
                    then (d, Reply 403 (Error ''Acces non autorise''))
                    else
                      (case insert_workspace_role d
                              \<lparr>r_id = newId, r_workspace_id = workspaceId, r_name = name,
                               r_description = cr_description req, r_color = color\<rparr> of
                         Inl e \<Rightarrow> (ROLLBACK (Some d) d, create_role_error e)
                       | Inr (role, d1) \<Rightarrow>
                           let d2 = (case cr_permissions req of
                                       None \<Rightarrow> d1
                                     | Some perms \<Rightarrow>
                                         if length perms > 0
                                         then add_permissions d1 (r_id role) perms else d1)
                           in
                             (case insert_audit audit_fault d2
                                     \<lparr>al_workspace_id = workspaceId, al_action = ''role_created'',
                                      al_entity_type = ''role'', al_entity_id = r_id role,
                                      al_target_user_id = None, al_performed_by = userId,
                                      al_old_value = None,
                                      al_new_value = Some (RoleSnapshot name (cr_permissions req))\<rparr> of
                                Inl e \<Rightarrow> (ROLLBACK None d2, create_role_error e)
                              | Inr d3 \<Rightarrow>
                                  (d3, Reply 201
                                         (RoleJson (r_id role) (r_name role) (r_description role)
                                            (r_color role)
                                            (case cr_permissions req of
                                               None \<Rightarrow> [] | Some perms \<Rightarrow> perms))))))))"

text \<open>The access check of role update and role deletion: the role joined with the
  requester's membership of the role's workspace.\<close>

definition role_check :: "db \<Rightarrow> uuid \<Rightarrow> uuid \<Rightarrow> (role_row \<times> string) list" where
  "role_check d roleId userId =
     [(r, wm_role wm). r \<leftarrow> workspace_roles d, wm \<leftarrow> workspace_members d,
        wm_workspace_id wm = r_workspace_id r \<and> wm_user_id wm = userId, r_id r = roleId]"

record update_role_body =
  up_name :: "string option"
  up_description :: "string option"
  up_color :: "string option"
  up_permissions :: "string list option"

text \<open>\<^verbatim>\<open>UPDATE workspace_roles SET ... WHERE id = $n\<close> with the fields that the request
  gives, each as the column stores it.\<close>

definition varchar_field :: "nat \<Rightarrow> string option \<Rightarrow> string + string option" where
  "varchar_field n field =
     (case field of
        None \<Rightarrow> Inr None
      | Some s \<Rightarrow> (case varchar n s of Inl e \<Rightarrow> Inl e | Inr s' \<Rightarrow> Inr (Some s')))"

definition apply_role_update ::
  "string option \<Rightarrow> string option \<Rightarrow> string option \<Rightarrow> role_row \<Rightarrow> role_row" where
  "apply_role_update name description color r =
     r\<lparr>r_name := (case name of None \<Rightarrow> r_name r | Some n \<Rightarrow> n),
       r_description := (case description of None \<Rightarrow> r_description r | Some x \<Rightarrow> Some x),
       r_color := (case color of None \<Rightarrow> r_color r | Some c \<Rightarrow> c)\<rparr>"

definition update_workspace_role :: "db \<Rightarrow> uuid \<Rightarrow> update_role_body \<Rightarrow> string + db" where
  "update_workspace_role d roleId req =
     (case varchar_field 100 (up_name req) of
        Inl e \<Rightarrow> Inl e
      | Inr name \<Rightarrow>
          (case varchar_field 7 (up_color req) of
             Inl e \<Rightarrow> Inl e
           | Inr color \<Rightarrow>
               let rows = map (\<lambda>r. if r_id r = roleId
                                     then apply_role_update name (up_description req) color r
                                     else r)
                            (workspace_roles d)
               in
                 if \<exists>r \<in> set rows. \<exists>r' \<in> set rows.
                      r_id r = roleId \<and> r_id r' \<noteq> roleId \<and>
                      r_workspace_id r' = r_workspace_id r \<and> r_name r' = r_name r
                 then Inl unique_violation
                 else Inr (d\<lparr>workspace_roles := rows\<rparr>)))"

text \<open>The \<^verbatim>\<open>UPDATE\<close> is sent only when the request names a field.\<close>

definition update_role_fields :: "db \<Rightarrow> uuid \<Rightarrow> update_role_body \<Rightarrow> string + db" where
  "update_role_fields d roleId req =
     (if up_name req \<noteq> None \<or> up_description req \<noteq> None \<or> up_color req \<noteq> None
      then update_workspace_role d roleId req else Inr d)"

definition delete_role_permissions :: "db \<Rightarrow> uuid \<Rightarrow> db" where
  "delete_role_permissions d roleId =
     d\<lparr>role_permissions := [rp \<leftarrow> role_permissions d. rp_role_id rp \<noteq> roleId]\<rparr>"

text \<open>\<^verbatim>\<open>PUT /roles/:roleId\<close>. The first query throws on a role identifier that is not
  the text of a UUID.\<close>

definition updateRole :: "db \<Rightarrow> uuid \<Rightarrow> string \<Rightarrow> update_role_body \<Rightarrow> db \<times> reply" where
  "updateRole d userId roleId req =
     (case pg_uuid roleId of
        None \<Rightarrow> (d, Reply 500 (Error ''Erreur''))
      | Some role_id \<Rightarrow>
          (case role_check d role_id userId of
             [] \<Rightarrow> (d, Reply 403 (Error ''Acces non autorise''))
           | (_, member_role) # _ \<Rightarrow>
               if member_role \<notin> set admin_roles
               then (d, Reply 403 (Error ''Acces non autorise''))
               else
                 (case update_role_fields d role_id req of
                    Inl e \<Rightarrow> (ROLLBACK (Some d) d, Reply 500 (Error ''Erreur''))
                  | Inr d1 \<Rightarrow>
                      (case (case up_permissions req of
                               None \<Rightarrow> Inr d1
                             | Some perms \<Rightarrow>
                                 replace_permissions (delete_role_permissions d1 role_id)
                                   role_id perms) of
                         Inl e \<Rightarrow> (ROLLBACK (Some d) d1, Reply 500 (Error ''Erreur''))
                       | Inr d2 \<Rightarrow> (d2, Reply 200 (Message ''Role mis a jour''))))))"

text \<open>\<^verbatim>\<open>DELETE FROM workspace_roles WHERE id = $1\<close>, with the \<^verbatim>\<open>ON DELETE CASCADE\<close> of
  \<^verbatim>\<open>role_permissions.role_id\<close> and \<^verbatim>\<open>user_roles.role_id\<close>.\<close>

definition delete_workspace_role :: "db \<Rightarrow> uuid \<Rightarrow> db" where
  "delete_workspace_role d roleId =
     d\<lparr>workspace_roles := [r \<leftarrow> workspace_roles d. r_id r \<noteq> roleId],
       role_permissions := [rp \<leftarrow> role_permissions d. rp_role_id rp \<noteq> roleId],
       user_roles := [ur \<leftarrow> user_roles d. ur_role_id ur \<noteq> roleId]\<rparr>"

text \<open>\<^verbatim>\<open>DELETE /roles/:roleId\<close>.\<close>

definition deleteRole :: "db \<Rightarrow> uuid \<Rightarrow> string \<Rightarrow> db \<times> reply" where
  "deleteRole d userId roleId =
     (case pg_uuid roleId of
        None \<Rightarrow> (d, Reply 500 (Error ''Erreur''))
      | Some role_id \<Rightarrow>
          (case role_check d role_id userId of
             [] \<Rightarrow> (d, Reply 403 (Error ''Acces non autorise''))
           | (_, member_role) # _ \<Rightarrow>
               if member_role \<notin> set admin_roles
               then (d, Reply 403 (Error ''Acces non autorise''))
               else (delete_workspace_role d role_id, Reply 200 (Message ''Role supprime''))))"

text \<open>The codes that a role grants, as \<^verbatim>\<open>GET /roles/workspace/:workspaceId\<close> reads them:
  \<^verbatim>\<open>role_permissions\<close> joined with \<^verbatim>\<open>permissions\<close>.\<close>

definition role_codes :: "db \<Rightarrow> uuid \<Rightarrow> string list" where
  "role_codes d roleId =
     [p_code p. rp \<leftarrow> role_permissions d, p \<leftarrow> permissions d,
        p_id p = rp_permission_id rp, rp_role_id rp = roleId]"

section \<open>Board and project permissions (permission.routes)\<close>

text \<open>\<^verbatim>\<open>INSERT ... ON CONFLICT (resource, user) DO UPDATE SET permission_level = $3\<close>:
  the row of the key, if there is one, keeps everything but its level.\<close>

definition level_key :: "level_row \<Rightarrow> uuid \<times> uuid" where
  "level_key r = (lp_resource_id r, lp_subject_id r)"

definition upsert_level ::
  "level_row list \<Rightarrow> uuid \<Rightarrow> uuid \<Rightarrow> string \<Rightarrow> uuid \<Rightarrow> level_row list" where
  "upsert_level rows resourceId subjectId level grantedBy =
     (if \<exists>r \<in> set rows. level_key r = (resourceId, subjectId)
      then map (\<lambda>r. if level_key r = (resourceId, subjectId)
                     then r\<lparr>lp_permission_level := level\<rparr> else r) rows
      else rows @ [\<lparr>lp_resource_id = resourceId, lp_subject_id = subjectId,
                    lp_permission_level = level, lp_granted_by = grantedBy\<rparr>])"

definition delete_level :: "level_row list \<Rightarrow> uuid \<Rightarrow> uuid \<Rightarrow> level_row list" where
  "delete_level rows resourceId subjectId =
     [r \<leftarrow> rows. level_key r \<noteq> (resourceId, subjectId)]"

text \<open>What the database answers to a level: the column is \<^verbatim>\<open>VARCHAR(50) NOT NULL\<close>,
  and a level missing from the request body is sent as null. \<open>Inr\<close> is the level as
  stored.\<close>

definition stored_level :: "string option \<Rightarrow> string + string" where
  "stored_level permissionLevel =
     (case permissionLevel of
        None \<Rightarrow> Inl not_null_violation
      | Some l \<Rightarrow> varchar 50 l)"

text \<open>
  The statement \<^verbatim>\<open>INSERT INTO board_permissions ... ON CONFLICT (board_id, user_id) DO
  UPDATE SET permission_level = $3\<close> and its twin on \<^verbatim>\<open>project_permissions\<close>, on the
  rows of the table. The user identifier is a parameter, read as a UUID; the level must be
  storable; a new row must name a registered user (\<^verbatim>\<open>user_id UUID REFERENCES users(id)\<close>).
\<close>

definition insert_level ::
  "uuid list \<Rightarrow> level_row list \<Rightarrow> uuid \<Rightarrow> string \<Rightarrow> string option \<Rightarrow> uuid
     \<Rightarrow> string + level_row list" where
  "insert_level registered rows resourceId userId permissionLevel grantedBy =
     (case pg_uuid userId of
        None \<Rightarrow> Inl invalid_text_representation
      | Some user_id \<Rightarrow>
          (case stored_level permissionLevel of
             Inl e \<Rightarrow> Inl e
           | Inr level \<Rightarrow>
               if (\<exists>r \<in> set rows. level_key r = (resourceId, user_id)) \<or>
                  user_id \<in> set registered
               then Inr (upsert_level rows resourceId user_id level grantedBy)
               else Inl foreign_key_violation))"

text \<open>The first query of \<^verbatim>\<open>POST /boards/:boardId/users/:userId\<close>: the board, left-joined
  with the requester's own row of \<^verbatim>\<open>board_permissions\<close> and with the requester's
  membership.\<close>

definition board_admin_rows :: "db \<Rightarrow> uuid \<Rightarrow> uuid \<Rightarrow> (string option \<times> uuid) list" where
  "board_admin_rows d boardId requester =
     [(map_option lp_permission_level bp, b_workspace_id b).
        b \<leftarrow> boards d, b_id b = boardId,
        bp \<leftarrow> left_join [bp \<leftarrow> board_permissions d. level_key bp = (b_id b, requester)],
        wm \<leftarrow> left_join [wm \<leftarrow> workspace_members d.
                wm_workspace_id wm = b_workspace_id b \<and> wm_user_id wm = requester]]"

text \<open>The handler answers 500 to whatever a query throws.\<close>

definition setBoardPermission ::
  "db \<Rightarrow> uuid \<Rightarrow> string \<Rightarrow> string \<Rightarrow> string option \<Rightarrow> db \<times> reply" where
  "setBoardPermission d requester boardId userId permissionLevel =
     (case pg_uuid boardId of
        None \<Rightarrow> (d, Reply 500 (Error ''Erreur''))
      | Some board_id \<Rightarrow>
          (case board_admin_rows d board_id requester of
             [] \<Rightarrow> (d, Reply 404 (Error ''Tableau non trouve''))
           | (permission_level, workspace_id) # _ \<Rightarrow>
               let isAdmin = (permission_level = Some ''admin'');
                   isWsAdmin = (case member_roles d workspace_id requester of
                                  [] \<Rightarrow> False
                                | role # _ \<Rightarrow> role \<in> set admin_roles)
               in
                 if \<not> isAdmin \<and> \<not> isWsAdmin then (d, Reply 403 (Error ''Acces non autorise''))
                 else
                   (case insert_level (users d) (board_permissions d) board_id userId
                           permissionLevel requester of
                      Inl e \<Rightarrow> (d, Reply 500 (Error ''Erreur''))
                    | Inr rows \<Rightarrow>
                        (d\<lparr>board_permissions := rows\<rparr>,
                         Reply 200 (Message ''Permission mise a jour'')))))"

text \<open>\<^verbatim>\<open>DELETE /boards/:boardId/users/:userId\<close> checks nothing but the authentication.\<close>

definition removeBoardPermission :: "db \<Rightarrow> string \<Rightarrow> string \<Rightarrow> db \<times> reply" where
  "removeBoardPermission d boardId userId =
     (case pg_uuid boardId of
        None \<Rightarrow> (d, Reply 500 (Error ''Erreur''))
      | Some board_id \<Rightarrow>
          (case pg_uuid userId of
             None \<Rightarrow> (d, Reply 500 (Error ''Erreur''))
           | Some user_id \<Rightarrow>
               (d\<lparr>board_permissions := delete_level (board_permissions d) board_id user_id\<rparr>,
                Reply 200 (Message ''Permission retiree''))))"

text \<open>\<^verbatim>\<open>POST /projects/:projectId/users/:userId\<close>: only the workspace role is looked at.\<close>

text \<open>\<^verbatim>\<open>SELECT p.workspace_id FROM sdsi_projects p WHERE p.id = $1\<close>.\<close>

definition project_workspaces :: "db \<Rightarrow> uuid \<Rightarrow> uuid list" where
  "project_workspaces d projectId =
     [pr_workspace_id p. p \<leftarrow> sdsi_projects d, pr_id p = projectId]"

definition setProjectPermission ::
  "db \<Rightarrow> uuid \<Rightarrow> string \<Rightarrow> string \<Rightarrow> string option \<Rightarrow> db \<times> reply" where
  "setProjectPermission d requester projectId userId permissionLevel =
     (case pg_uuid projectId of
        None \<Rightarrow> (d, Reply 500 (Error ''Erreur''))
      | Some project_id \<Rightarrow>
          (case project_workspaces d project_id of
             [] \<Rightarrow> (d, Reply 404 (Error ''Projet non trouve''))
           | workspace_id # _ \<Rightarrow>
               (case member_roles d workspace_id requester of
                  [] \<Rightarrow> (d, Reply 403 (Error ''Acces non autorise''))
                | role # _ \<Rightarrow>
                    if role \<notin> set admin_roles then (d, Reply 403 (Error ''Acces non autorise''))
                    else
                      (case insert_level (users d) (project_permissions d) project_id userId
                              permissionLevel requester of
                         Inl e \<Rightarrow> (d, Reply 500 (Error ''Erreur''))
                       | Inr rows \<Rightarrow>
                           (d\<lparr>project_permissions := rows\<rparr>,
                            Reply 200 (Message ''Permission mise a jour''))))))"


section \<open>Group membership (permission.routes)\<close>

text \<open>\<^verbatim>\<open>POST /groups/:groupId/members/:userId\<close>: \<^verbatim>\<open>INSERT ... ON CONFLICT DO NOTHING\<close>.
  A new row must name a group of \<^verbatim>\<open>user_groups\<close> and a registered user (the two foreign
  keys of \<^verbatim>\<open>user_group_members\<close>); otherwise the statement throws and nothing is stored.\<close>

definition addGroupMember :: "db \<Rightarrow> string \<Rightarrow> string \<Rightarrow> db \<times> reply" where
  "addGroupMember d groupId userId =
     (case pg_uuid groupId of
        None \<Rightarrow> (d, Reply 500 (Error ''Erreur''))
      | Some group_id \<Rightarrow>
          (case pg_uuid userId of
             None \<Rightarrow> (d, Reply 500 (Error ''Erreur''))
           | Some user_id \<Rightarrow>
               if \<exists>gm \<in> set (user_group_members d).
                    gm_group_id gm = group_id \<and> gm_user_id gm = user_id
               then (d, Reply 200 (Message ''Membre ajoute''))
               else if group_id \<in> g_id ` set (user_groups d) \<and> user_id \<in> set (users d)
               then
                 (d\<lparr>user_group_members := user_group_members d @
                       [\<lparr>gm_group_id = group_id, gm_user_id = user_id\<rparr>]\<rparr>,
                  Reply 200 (Message ''Membre ajoute''))
               else (d, Reply 500 (Error ''Erreur''))))"

text \<open>\<^verbatim>\<open>DELETE /groups/:groupId/members/:userId\<close>.\<close>

definition removeGroupMember :: "db \<Rightarrow> string \<Rightarrow> string \<Rightarrow> db \<times> reply" where
  "removeGroupMember d groupId userId =
     (case pg_uuid groupId of
        None \<Rightarrow> (d, Reply 500 (Error ''Erreur''))
      | Some group_id \<Rightarrow>
          (case pg_uuid userId of
             None \<Rightarrow> (d, Reply 500 (Error ''Erreur''))
           | Some user_id \<Rightarrow>
               (d\<lparr>user_group_members :=
                    [gm \<leftarrow> user_group_members d.
                       \<not> (gm_group_id gm = group_id \<and> gm_user_id gm = user_id)]\<rparr>,
                Reply 200 (Message ''Membre retire''))))"

section \<open>Workspaces and their owner (workspace.routes, member.routes)\<close>

text \<open>\<^verbatim>\<open>POST /workspaces\<close>: the creator becomes the owner, in the workspace row and in
  the membership, for a request that gives the name only. \<open>newId\<close> is the identifier that
  the database gives the workspace. The name is a \<^verbatim>\<open>VARCHAR(255)\<close>; the reply gives it
  as stored. The owner of a workspace is a registered user
  (\<^verbatim>\<open>owner_id UUID REFERENCES users(id)\<close>).\<close>

definition createWorkspace :: "db \<Rightarrow> uuid \<Rightarrow> uuid \<Rightarrow> string \<Rightarrow> db \<times> reply" where
  "createWorkspace d newId userId body_name =
     (if trim body_name = [] then (d, Reply 400 Errors)
      else
        (case varchar 255 (trim body_name) of
           Inl e \<Rightarrow> (d, Reply 500 (Error ''Erreur lors de la creation du workspace''))
         | Inr name \<Rightarrow>
             if userId \<in> set (users d)
             then
               (d\<lparr>workspaces := workspaces d @ [\<lparr>w_id = newId, w_owner_id = userId\<rparr>],
                  workspace_members := workspace_members d @
                    [\<lparr>wm_workspace_id = newId, wm_user_id = userId, wm_role = ''owner''\<rparr>]\<rparr>,
                Reply 201 (WorkspaceJson newId name userId ''owner''))
             else (d, Reply 500 (Error ''Erreur lors de la creation du workspace''))))"

text \<open>\<^verbatim>\<open>UPDATE workspace_members SET role = $1 WHERE workspace_id = $2 AND user_id = $3\<close>.\<close>

definition set_member_role :: "db \<Rightarrow> string \<Rightarrow> uuid \<Rightarrow> uuid \<Rightarrow> db" where
  "set_member_role d role workspaceId userId =
     d\<lparr>workspace_members :=
         map (\<lambda>wm. if wm_workspace_id wm = workspaceId \<and> wm_user_id wm = userId
                    then wm\<lparr>wm_role := role\<rparr> else wm) (workspace_members d)\<rparr>"

definition set_workspace_owner :: "db \<Rightarrow> uuid \<Rightarrow> uuid \<Rightarrow> db" where
  "set_workspace_owner d ownerId workspaceId =
     d\<lparr>workspaces :=
         map (\<lambda>w. if w_id w = workspaceId then w\<lparr>w_owner_id := ownerId\<rparr> else w) (workspaces d)\<rparr>"

text \<open>\<^verbatim>\<open>POST /workspace/:workspaceId/transfer-ownership\<close>, behind
  \<^verbatim>\<open>checkWorkspaceAccess\<close>. The queries of the handler read the two identifiers of the
  request as UUIDs.\<close>

definition transferOwnership :: "db \<Rightarrow> uuid \<Rightarrow> string \<Rightarrow> string \<Rightarrow> db \<times> reply" where
  "transferOwnership d userId workspaceId newOwnerId =
     (case checkWorkspaceAccess d userId (Some workspaceId) None of
        Inl r \<Rightarrow> (d, r)
      | Inr workspaceRole \<Rightarrow>
          if workspaceRole \<noteq> ''owner''
          then (d, Reply 403 (Error ''Seul le proprietaire peut transferer la propriete''))
          else if \<not> isUUID newOwnerId then (d, Reply 400 Errors)
          else
            (case (pg_uuid workspaceId, pg_uuid newOwnerId) of
               (Some workspace_id, Some new_owner_id) \<Rightarrow>
                 if member_roles d workspace_id new_owner_id = []
                 then (d, Reply 400 (Error (''L'' @ [CHR 0x27] @
                                             ''utilisateur doit etre membre du workspace'')))
                 else
                   let d1 = set_workspace_owner d new_owner_id workspace_id;
                       d2 = set_member_role d1 ''owner'' workspace_id new_owner_id;
                       d3 = set_member_role d2 ''admin'' workspace_id userId
                   in (d3, Reply 200 (Message ''Propriete transferee avec succes''))
             | _ \<Rightarrow> (d, Reply 500 (Error ''Erreur lors du transfert de propriete''))))"

text \<open>
  \<^verbatim>\<open>DELETE /workspace/:workspaceId/members/:memberId\<close> of member.routes, behind
  \<^verbatim>\<open>checkWorkspaceAccess\<close>. The handler compares the member identifier of the request, as
  text, with the requester's identifier and with the \<^verbatim>\<open>owner_id\<close> that the database has
  printed (\<^verbatim>\<open>!==\<close> and \<^verbatim>\<open>===\<close> of JavaScript); its queries read it as a UUID. In
  JavaScript \<^verbatim>\<open>rows[0].owner_id\<close> of a workspace that does not exist throws, which the
  handler answers with 500, as it does when a query throws.
\<close>

definition remove_member_error :: reply where
  "remove_member_error = Reply 500 (Error ''Erreur lors du retrait du membre'')"

definition removeMember :: "db \<Rightarrow> uuid \<Rightarrow> string \<Rightarrow> string \<Rightarrow> db \<times> reply" where
  "removeMember d userId workspaceId memberId =
     (case checkWorkspaceAccess d userId (Some workspaceId) None of
        Inl r \<Rightarrow> (d, r)
      | Inr workspaceRole \<Rightarrow>
          if memberId \<noteq> userId \<and> workspaceRole \<notin> set admin_roles
          then (d, Reply 403 (Error ''Permission insuffisante''))
          else
            (case pg_uuid workspaceId of
               None \<Rightarrow> (d, remove_member_error)
             | Some workspace_id \<Rightarrow>
                 (case [w_owner_id w. w \<leftarrow> workspaces d, w_id w = workspace_id] of
                    [] \<Rightarrow> (d, remove_member_error)
                  | owner_id # _ \<Rightarrow>
                      if owner_id = memberId
                      then (d, Reply 400 (Error ''Le proprietaire ne peut pas etre retire''))
                      else
                        (case pg_uuid memberId of
                           None \<Rightarrow> (d, remove_member_error)
                         | Some member_id \<Rightarrow>
                             if workspaceRole = ''admin'' \<and> memberId \<noteq> userId \<and>
                                (case member_roles d workspace_id member_id of
                                   [] \<Rightarrow> False | role # _ \<Rightarrow> role = ''admin'')
                             then (d, Reply 403 (Error ''Un admin ne peut pas retirer un autre admin''))
                             else
                               (d\<lparr>workspace_members :=
                                    [wm \<leftarrow> workspace_members d.
                                       \<not> (wm_workspace_id wm = workspace_id \<and>
                                          wm_user_id wm = member_id)]\<rparr>,
                                Reply 200 (Message ''Membre retire avec succes''))))))"

text \<open>The holders of the role \<^verbatim>\<open>owner\<close> in a workspace.\<close>

definition owners :: "db \<Rightarrow> uuid \<Rightarrow> uuid list" where
  "owners d workspaceId =
     [wm_user_id wm. wm \<leftarrow> workspace_members d,
        wm_workspace_id wm = workspaceId \<and> wm_role wm = ''owner'']"

section \<open>The decisions as the specification words them\<close>

text \<open>
  The specification describes two decision functions. They are written here from its
  words (sections 4.1 and 4.2), to be compared with the middleware and the handlers above.
  A Membership maps a workspace and a principal to a role.
\<close>

datatype reason = NotMember | RoleBypass | CustomRole | NoPermission | Override | InsufficientLevel

datatype decision = Allow reason | Deny reason

definition Membership :: "db \<Rightarrow> (uuid \<times> uuid) \<rightharpoonup> string" where
  "Membership d =
     map_of [((wm_workspace_id wm, wm_user_id wm), wm_role wm). wm \<leftarrow> workspace_members d]"

definition assigned_roles :: "db \<Rightarrow> uuid \<Rightarrow> uuid \<Rightarrow> uuid set" where
  "assigned_roles d principalID workspaceID =
     set [ur_role_id ur. ur \<leftarrow> user_roles d,
        ur_user_id ur = principalID \<and> ur_workspace_id ur = workspaceID]"

definition DecideWorkspace :: "db \<Rightarrow> uuid \<Rightarrow> uuid \<Rightarrow> string \<Rightarrow> decision" where
  "DecideWorkspace d principalID workspaceID permissionCode =
     (case Membership d (workspaceID, principalID) of
        None \<Rightarrow> Deny NotMember
      | Some role \<Rightarrow>
          if role = ''owner'' \<or> role = ''admin'' then Allow RoleBypass
          else if permissionCode \<in> (\<Union>r \<in> assigned_roles d principalID workspaceID. set (role_codes d r))
          then Allow CustomRole
          else Deny NoPermission)"

text \<open>How \<^verbatim>\<open>checkPermission\<close> answers a decision: \<^verbatim>\<open>next()\<close>, or 403 with one of its
  two messages.\<close>

fun reply_of_decision :: "string \<Rightarrow> decision \<Rightarrow> reply" where
  "reply_of_decision c (Allow _) = Next"
| "reply_of_decision c (Deny NotMember) = Reply 403 (Error ''Acces au workspace non autorise'')"
| "reply_of_decision c (Deny _) = Reply 403 (Error (permission_required c))"

datatype resource_type = Board | Project

datatype level = View | Edit | Admin

text \<open>The order view < edit < admin, with 0 for "none" and for any other string.\<close>

fun rank :: "level \<Rightarrow> nat" where
  "rank View = 1"
| "rank Edit = 2"
| "rank Admin = 3"

definition level_rank :: "string \<Rightarrow> nat" where
  "level_rank l =
     (if l = ''view'' then 1 else if l = ''edit'' then 2 else if l = ''admin'' then 3 else 0)"

definition resource_workspace :: "db \<Rightarrow> resource_type \<Rightarrow> uuid \<Rightarrow> uuid option" where
  "resource_workspace d t resourceID =
     (case t of
        Board \<Rightarrow> map_of [(b_id b, b_workspace_id b). b \<leftarrow> boards d] resourceID
      | Project \<Rightarrow> map_of [(pr_id p, pr_workspace_id p). p \<leftarrow> sdsi_projects d] resourceID)"

definition user_overrides :: "db \<Rightarrow> resource_type \<Rightarrow> level_row list" where
  "user_overrides d t = (case t of Board \<Rightarrow> board_permissions d | Project \<Rightarrow> project_permissions d)"

definition group_overrides :: "db \<Rightarrow> resource_type \<Rightarrow> level_row list" where
  "group_overrides d t =
     (case t of Board \<Rightarrow> board_group_permissions d | Project \<Rightarrow> project_group_permissions d)"

text \<open>The per-user overrides of a kind of resource, as a map from (resource, user) to the
  level.\<close>

definition ResourceOverride :: "db \<Rightarrow> resource_type \<Rightarrow> (uuid \<times> uuid) \<rightharpoonup> string" where
  "ResourceOverride d t = map_of [(level_key r, lp_permission_level r). r \<leftarrow> user_overrides d t]"

definition directLevel :: "db \<Rightarrow> resource_type \<Rightarrow> uuid \<Rightarrow> uuid \<Rightarrow> nat" where
  "directLevel d t resourceID principalID =
     (case ResourceOverride d t (resourceID, principalID) of
        None \<Rightarrow> 0
      | Some l \<Rightarrow> level_rank l)"

definition groupLevel :: "db \<Rightarrow> resource_type \<Rightarrow> uuid \<Rightarrow> uuid \<Rightarrow> uuid \<Rightarrow> nat" where
  "groupLevel d t resourceID principalID workspaceID =
     fold max [level_rank (lp_permission_level r).
                 r \<leftarrow> group_overrides d t, lp_resource_id r = resourceID,
                 g \<leftarrow> user_groups d, g_id g = lp_subject_id r \<and> g_workspace_id g = workspaceID,
                 gm \<leftarrow> user_group_members d,
                 gm_group_id gm = g_id g \<and> gm_user_id gm = principalID] 0"

text \<open>\<open>None\<close> is the error \<^verbatim>\<open>ResourceNotFound\<close>.\<close>

definition DecideResource ::
  "db \<Rightarrow> uuid \<Rightarrow> resource_type \<Rightarrow> uuid \<Rightarrow> level \<Rightarrow> decision option" where
  "DecideResource d principalID t resourceID requiredLevel =
     (case resource_workspace d t resourceID of
        None \<Rightarrow> None
      | Some workspaceID \<Rightarrow>
          Some
            (if Membership d (workspaceID, principalID) \<in> {Some ''owner'', Some ''admin''}
             then Allow RoleBypass
             else
               let effectiveLevel = max (directLevel d t resourceID principalID)
                                        (groupLevel d t resourceID principalID workspaceID)
               in if effectiveLevel \<ge> rank requiredLevel then Allow Override
                  else Deny InsufficientLevel))"

text \<open>The refusal of the handlers of permission.routes.\<close>

definition forbidden :: reply where
  "forbidden = Reply 403 (Error ''Acces non autorise'')"





section \<open>The states that the override handlers reach\<close>




section \<open>Sample data\<close>

text \<open>Two registered users, Alice and Bob, and no other row. Then a workspace with its
  owner Alice and a member Bob, who holds the custom role "Budget Manager": the end-to-end
  scenario of the specification.\<close>

definition alice :: uuid where "alice = ''a0000000-0000-4000-8000-00000000000a''"
definition bob :: uuid where "bob = ''b0000000-0000-4000-8000-00000000000b''"

definition empty_db :: db where
  "empty_db = \<lparr>users = [alice, bob], workspaces = [], workspace_members = [], boards = [], workspace_roles = [],
     permissions = [], role_permissions = [], user_roles = [], sdsi_projects = [],
     board_permissions = [], project_permissions = [], user_groups = [],
     user_group_members = [], board_group_permissions = [], project_group_permissions = [],
     permission_audit_logs = []\<rparr>"

definition ws1 :: uuid where "ws1 = ''11111111-1111-4111-8111-111111111111''"
definition role1 :: uuid where "role1 = ''22222222-2222-4222-8222-222222222222''"
definition perm1 :: uuid where "perm1 = ''33333333-3333-4333-8333-333333333333''"
definition perm2 :: uuid where "perm2 = ''77777777-7777-4777-8777-777777777777''"
definition role2 :: uuid where "role2 = ''88888888-8888-4888-8888-888888888888''"
definition board1 :: uuid where "board1 = ''44444444-4444-4444-8444-444444444444''"
definition project1 :: uuid where "project1 = ''66666666-6666-4666-8666-666666666666''"

definition budget_db :: db where
  "budget_db = empty_db
     \<lparr>workspaces := [\<lparr>w_id = ws1, w_owner_id = alice\<rparr>],
      workspace_members := [\<lparr>wm_workspace_id = ws1, wm_user_id = alice, wm_role = ''owner''\<rparr>,
                            \<lparr>wm_workspace_id = ws1, wm_user_id = bob, wm_role = ''member''\<rparr>],
      boards := [\<lparr>b_id = board1, b_workspace_id = ws1\<rparr>],
      sdsi_projects := [\<lparr>pr_id = project1, pr_workspace_id = ws1\<rparr>],
      workspace_roles := [\<lparr>r_id = role1, r_workspace_id = ws1, r_name = ''Budget Manager'',
                           r_description = None, r_color = ''#6366f1''\<rparr>],
      permissions := [\<lparr>p_id = perm1, p_code = ''budget.edit''\<rparr>,
                      \<lparr>p_id = perm2, p_code = ''budget.view''\<rparr>],
      role_permissions := [\<lparr>rp_role_id = role1, rp_permission_id = perm1\<rparr>],
      user_roles := [\<lparr>ur_user_id = bob, ur_workspace_id = ws1, ur_role_id = role1\<rparr>]\<rparr>"

text \<open>The same workspace with a group of which Bob is a member and which holds the level
  \<^verbatim>\<open>admin\<close> on the board.\<close>

definition group1 :: uuid where "group1 = ''55555555-5555-4555-8555-555555555555''"

definition group_db :: db where
  "group_db = budget_db
     \<lparr>user_groups := [\<lparr>g_id = group1, g_workspace_id = ws1\<rparr>],
      user_group_members := [\<lparr>gm_group_id = group1, gm_user_id = bob\<rparr>],
      board_group_permissions := [\<lparr>lp_resource_id = board1, lp_subject_id = group1,
                                   lp_permission_level = ''admin'', lp_granted_by = alice\<rparr>]\<rparr>"


text \<open>Requests on the sample workspace: a role update that replaces the grants by
  \<^verbatim>\<open>budget.view\<close>, the same with the code written twice, and the creation of a role with
  the code written twice.\<close>

definition replace_with_view :: update_role_body where
  "replace_with_view = \<lparr>up_name = None, up_description = None, up_color = None,
     up_permissions = Some [''budget.view'']\<rparr>"

definition replace_with_view_twice :: update_role_body where
  "replace_with_view_twice = \<lparr>up_name = None, up_description = None, up_color = None,
     up_permissions = Some [''budget.view'', ''budget.view'']\<rparr>"

definition viewer_role_body :: create_role_body where
  "viewer_role_body = \<lparr>cr_workspaceId = ws1, cr_name = ''Budget Viewer'', cr_description = None,
     cr_color = None, cr_permissions = Some [''budget.view'', ''budget.view'']\<rparr>"

section \<open>Facts about the sample data\<close>

lemmas sample_ids = alice_def bob_def ws1_def role1_def role2_def perm1_def perm2_def board1_def project1_def group1_def

text \<open>The sample identifiers are values: PostgreSQL reads each of them as itself.\<close>

lemma pg_uuid_samples:
  "pg_uuid alice = Some alice" "pg_uuid bob = Some bob" "pg_uuid ws1 = Some ws1"
  "pg_uuid role1 = Some role1" "pg_uuid role2 = Some role2" "pg_uuid board1 = Some board1"
  "pg_uuid project1 = Some project1" "pg_uuid group1 = Some group1"
  by (simp_all add: pg_uuid_def hyphen_after_def is_hex_def lower_def uuid_out_def sample_ids)

lemma sample_distinct:
  "alice \<noteq> bob" "bob \<noteq> alice" "role1 \<noteq> role2" "role2 \<noteq> role1"
  "perm1 \<noteq> perm2" "perm2 \<noteq> perm1"
  by (simp_all add: sample_ids)

lemma sample_nonempty:
  "ws1 \<noteq> []" "board1 \<noteq> []" "alice \<noteq> []" "bob \<noteq> []"
  by (simp_all add: sample_ids)

lemma varchar_short: "length s \<le> n \<Longrightarrow> varchar n s = Inr s"
  by (simp add: varchar_def)

lemmas eval_setBoardPermission = setBoardPermission_def board_admin_rows_def left_join_def
  member_roles_def admin_roles_def insert_level_def stored_level_def varchar_def upsert_level_def
  level_key_def pg_uuid_samples sample_distinct

lemma budget_db_simps:
  "users budget_db = [alice, bob]"
  "workspace_members budget_db = [\<lparr>wm_workspace_id = ws1, wm_user_id = alice, wm_role = ''owner''\<rparr>,
                            \<lparr>wm_workspace_id = ws1, wm_user_id = bob, wm_role = ''member''\<rparr>]"
  "permissions budget_db = [\<lparr>p_id = perm1, p_code = ''budget.edit''\<rparr>,
                            \<lparr>p_id = perm2, p_code = ''budget.view''\<rparr>]"
  "role_permissions budget_db = [\<lparr>rp_role_id = role1, rp_permission_id = perm1\<rparr>]"
  "user_roles budget_db = [\<lparr>ur_user_id = bob, ur_workspace_id = ws1, ur_role_id = role1\<rparr>]"
  "boards budget_db = [\<lparr>b_id = board1, b_workspace_id = ws1\<rparr>]"
  "sdsi_projects budget_db = [\<lparr>pr_id = project1, pr_workspace_id = ws1\<rparr>]"
  "board_permissions budget_db = []"
  "project_permissions budget_db = []"
  by (simp_all add: budget_db_def empty_db_def)

lemma budget_db_roles:
  "workspace_roles budget_db = [\<lparr>r_id = role1, r_workspace_id = ws1, r_name = ''Budget Manager'',
                           r_description = None, r_color = ''#6366f1''\<rparr>]"
  by (simp add: budget_db_def empty_db_def)

lemma group_db_simps:
  "users group_db = [alice, bob]"
  "workspace_members group_db = workspace_members budget_db"
  "boards group_db = boards budget_db"
  "sdsi_projects group_db = sdsi_projects budget_db"
  "board_permissions group_db = []"
  "project_permissions group_db = []"
  "user_groups group_db = [\<lparr>g_id = group1, g_workspace_id = ws1\<rparr>]"
  "user_group_members group_db = [\<lparr>gm_group_id = group1, gm_user_id = bob\<rparr>]"
  "board_group_permissions group_db = [\<lparr>lp_resource_id = board1, lp_subject_id = group1,
                                   lp_permission_level = ''admin'', lp_granted_by = alice\<rparr>]"
  by (simp_all add: group_db_def budget_db_def empty_db_def)

lemma budget_db_groups:
  "user_groups budget_db = []" "board_group_permissions budget_db = []"
  "project_group_permissions budget_db = []"
  by (simp_all add: budget_db_def empty_db_def)

lemma budget_db_logs: "permission_audit_logs budget_db = []" "permission_audit_logs group_db = []"
  "user_group_members budget_db = []"
  by (simp_all add: budget_db_def group_db_def empty_db_def)

lemmas eval_roles = role_check_def admin_roles_def member_roles_def update_role_fields_def
  delete_role_permissions_def permission_ids_def insert_role_permission_def
  has_role_permission_def insert_role_permission_do_nothing_def unique_violation_def ROLLBACK_def
  pg_uuid_samples sample_distinct

lemma updateRole_view:
  "updateRole budget_db alice role1 replace_with_view =
     (budget_db\<lparr>role_permissions := [\<lparr>rp_role_id = role1, rp_permission_id = perm2\<rparr>]\<rparr>,
      Reply 200 (Message ''Role mis a jour''))"
  by (simp add: updateRole_def replace_with_view_def eval_roles budget_db_simps budget_db_roles)

lemma updateRole_view_twice:
  "updateRole budget_db alice role1 replace_with_view_twice =
     (budget_db, Reply 500 (Error ''Erreur''))"
  by (simp add: updateRole_def replace_with_view_twice_def eval_roles budget_db_simps
      budget_db_roles)

lemma isUUID_samples: "isUUID ws1" "isUUID alice" "isUUID bob"
  by (simp_all add: isUUID_def is_hex_def sample_ids)

lemma trim_viewer: "trim ''Budget Viewer'' = ''Budget Viewer''"
  by (simp add: trim_def js_space_def)

lemma createRole_viewer:
  "createRole budget_db role2 fault alice viewer_role_body =
     (let d2 = budget_db\<lparr>workspace_roles := workspace_roles budget_db @
                   [\<lparr>r_id = role2, r_workspace_id = ws1, r_name = ''Budget Viewer'',
                     r_description = None, r_color = ''#6366f1''\<rparr>],
                 role_permissions := role_permissions budget_db @
                   [\<lparr>rp_role_id = role2, rp_permission_id = perm2\<rparr>]\<rparr>
      in case fault of
           Some e \<Rightarrow> (d2, create_role_error e)
         | None \<Rightarrow>
             (d2\<lparr>permission_audit_logs :=
                   [\<lparr>al_workspace_id = ws1, al_action = ''role_created'', al_entity_type = ''role'',
                     al_entity_id = role2, al_target_user_id = None, al_performed_by = alice,
                     al_old_value = None,
                     al_new_value = Some (RoleSnapshot ''Budget Viewer''
                                           (Some [''budget.view'', ''budget.view'']))\<rparr>]\<rparr>,
              Reply 201 (RoleJson role2 ''Budget Viewer'' None ''#6366f1''
                           [''budget.view'', ''budget.view''])))"
  by (cases fault)
     (simp_all add: createRole_def viewer_role_body_def isUUID_samples trim_viewer js_or_def
      insert_workspace_role_def varchar_def insert_audit_def eval_roles budget_db_simps
      budget_db_roles budget_db_logs Let_def)

section \<open>The workspace-level decision\<close>

lemma map_of_first_row:
  "map_of [(k x, v x). x \<leftarrow> xs] key =
     (case [v x. x \<leftarrow> xs, k x = key] of [] \<Rightarrow> None | y # _ \<Rightarrow> Some y)"
  by (induction xs) auto

lemma Membership_member_roles:
  "Membership d (w, u) = (case member_roles d w u of [] \<Rightarrow> None | r # _ \<Rightarrow> Some r)"
proof -
  have "Membership d (w, u) =
      (case [wm_role x. x \<leftarrow> workspace_members d, (wm_workspace_id x, wm_user_id x) = (w, u)] of
         [] \<Rightarrow> None | y # _ \<Rightarrow> Some y)"
    unfolding Membership_def by (rule map_of_first_row)
  then show ?thesis by (simp add: member_roles_def)
qed

lemma permission_count_pos:
  "(permission_count d u w c > 0) \<longleftrightarrow> c \<in> (\<Union>r \<in> assigned_roles d u w. set (role_codes d r))"
  unfolding permission_count_def assigned_roles_def role_codes_def
  by auto

text \<open>
  Claim C1. With a workspace identifier in the request, \<^verbatim>\<open>checkPermission\<close> answers as
  the three-step algorithm decides for the workspace that the identifier names: no
  Membership row gives 403 (not a member); the role owner or admin gives \<^verbatim>\<open>next()\<close> with
  no further check; otherwise \<^verbatim>\<open>next()\<close> exactly when the code is in the union of the
  codes of the custom roles assigned to the principal in that workspace, and 403 (permission
  required) if not. A text that names no workspace, because it is not the text of a UUID,
  is answered 500.
\<close>

theorem checkPermission_follows_DecideWorkspace:
  assumes "js_or params_workspaceId body_workspaceId = Some workspaceId" and "workspaceId \<noteq> []"
  shows "checkPermission permissionCode d userId params_workspaceId body_workspaceId
           = (case pg_uuid workspaceId of
                None \<Rightarrow> Reply 500 (Error ''Erreur de verification des permissions'')
              | Some workspaceID \<Rightarrow>
                  reply_of_decision permissionCode
                    (DecideWorkspace d userId workspaceID permissionCode))"
proof (cases "pg_uuid workspaceId")
  case None
  with assms show ?thesis by (simp add: checkPermission_def)
next
  case (Some workspaceID)
  show ?thesis
  proof (cases "member_roles d workspaceID userId")
    case Nil
    with assms Some show ?thesis
      by (simp add: checkPermission_def DecideWorkspace_def Membership_member_roles)
  next
    case (Cons wsRole rest)
    have "(wsRole \<in> set admin_roles) \<longleftrightarrow> (wsRole = ''owner'' \<or> wsRole = ''admin'')"
      by (auto simp: admin_roles_def)
    with Cons assms Some show ?thesis
      by (simp add: checkPermission_def DecideWorkspace_def Membership_member_roles
          permission_count_pos)
  qed
qed

theorem checkPermission_follows_DecideWorkspace_witness:
  "js_or (Some ws1) None = Some ws1 \<and> ws1 \<noteq> [] \<and>
   checkPermission ''budget.edit'' budget_db bob (Some ws1) None = Next \<and>
   DecideWorkspace budget_db bob ws1 ''budget.edit'' = Allow CustomRole \<and>
   checkPermission ''project.delete'' budget_db bob (Some ws1) None
     = Reply 403 (Error (permission_required ''project.delete'')) \<and>
   DecideWorkspace budget_db bob ws1 ''project.delete'' = Deny NoPermission \<and>
   checkPermission ''project.delete'' budget_db alice (Some ws1) None = Next \<and>
   DecideWorkspace budget_db alice ws1 ''project.delete'' = Allow RoleBypass \<and>
   checkPermission ''budget.edit'' budget_db bob None (Some ''11111111111141118111111111111111'')
     = Next \<and>
   checkPermission ''budget.edit'' budget_db bob (Some ''acme'') None
     = Reply 500 (Error ''Erreur de verification des permissions'')"
proof -
  have j: "js_or (Some ws1) None = Some ws1" and n: "ws1 \<noteq> []"
    by (simp_all add: js_or_def sample_nonempty)
  have j2: "js_or None (Some ''11111111111141118111111111111111'')
      = Some ''11111111111141118111111111111111''"
    and j3: "js_or (Some ''acme'') None = Some ''acme''"
    by (simp_all add: js_or_def)
  have p2: "pg_uuid ''11111111111141118111111111111111'' = Some ws1"
    and p3: "pg_uuid ''acme'' = None"
    by (simp_all add: pg_uuid_def hyphen_after_def is_hex_def lower_def uuid_out_def ws1_def)
  have d1: "DecideWorkspace budget_db bob ws1 ''budget.edit'' = Allow CustomRole"
    by (simp add: DecideWorkspace_def Membership_def assigned_roles_def role_codes_def
        budget_db_simps sample_distinct)
  have d2: "DecideWorkspace budget_db bob ws1 ''project.delete'' = Deny NoPermission"
    by (simp add: DecideWorkspace_def Membership_def assigned_roles_def role_codes_def
        budget_db_simps sample_distinct)
  have d3: "DecideWorkspace budget_db alice ws1 ''project.delete'' = Allow RoleBypass"
    by (simp add: DecideWorkspace_def Membership_def assigned_roles_def role_codes_def
        budget_db_simps sample_distinct)
  show ?thesis
    using checkPermission_follows_DecideWorkspace [OF j n, of "''budget.edit''" budget_db bob]
      checkPermission_follows_DecideWorkspace [OF j n, of "''project.delete''" budget_db bob]
      checkPermission_follows_DecideWorkspace [OF j n, of "''project.delete''" budget_db alice]
      checkPermission_follows_DecideWorkspace [OF j2, of "''budget.edit''" budget_db bob]
      checkPermission_follows_DecideWorkspace [OF j3, of "''budget.edit''" budget_db bob]
    by (simp add: j n d1 d2 d3 p2 p3 pg_uuid_samples)
qed

section \<open>Access to a board\<close>

lemma board_access_rows_nonempty:
  "(board_access_rows d boardId userId \<noteq> []) \<longleftrightarrow>
     (\<exists>b \<in> set (boards d). b_id b = boardId \<and>
        (\<exists>wm \<in> set (workspace_members d).
           wm_workspace_id wm = b_workspace_id b \<and> wm_user_id wm = userId))"
  unfolding board_access_rows_def by auto

lemma checkBoardAccess_Next:
  assumes "js_or params_boardId body_boardId = Some boardId" and "boardId \<noteq> []"
  shows "(checkBoardAccess d userId params_boardId body_boardId = Next) \<longleftrightarrow>
           (\<exists>board_id. pg_uuid boardId = Some board_id \<and> board_access_rows d board_id userId \<noteq> [])"
proof (cases "pg_uuid boardId")
  case None
  with assms show ?thesis by (simp add: checkBoardAccess_def access_check_error_def)
next
  case (Some board_id)
  with assms show ?thesis
    by (cases "board_access_rows d board_id userId") (simp_all add: checkBoardAccess_def)
qed

text \<open>
  Claim C9. \<^verbatim>\<open>checkBoardAccess\<close> lets a user through exactly when the board that the
  request names exists and the user has a Membership row, of any role, in the board's
  workspace; the tables \<^verbatim>\<open>board_permissions\<close> and \<^verbatim>\<open>board_group_permissions\<close> have no
  influence on its answer.
\<close>

theorem checkBoardAccess_membership_only:
  assumes "js_or params_boardId body_boardId = Some boardId" and "boardId \<noteq> []"
  shows "((checkBoardAccess d userId params_boardId body_boardId = Next) \<longleftrightarrow>
           (\<exists>b \<in> set (boards d). pg_uuid boardId = Some (b_id b) \<and>
              (\<exists>wm \<in> set (workspace_members d).
                 wm_workspace_id wm = b_workspace_id b \<and> wm_user_id wm = userId))) \<and>
         checkBoardAccess (d\<lparr>board_permissions := bp, board_group_permissions := bgp\<rparr>)
             userId params_boardId body_boardId
           = checkBoardAccess d userId params_boardId body_boardId"
proof
  show "(checkBoardAccess d userId params_boardId body_boardId = Next) \<longleftrightarrow>
           (\<exists>b \<in> set (boards d). pg_uuid boardId = Some (b_id b) \<and>
              (\<exists>wm \<in> set (workspace_members d).
                 wm_workspace_id wm = b_workspace_id b \<and> wm_user_id wm = userId))"
    unfolding checkBoardAccess_Next [OF assms] board_access_rows_nonempty by auto
next
  show "checkBoardAccess (d\<lparr>board_permissions := bp, board_group_permissions := bgp\<rparr>)
             userId params_boardId body_boardId
           = checkBoardAccess d userId params_boardId body_boardId"
  proof -
    have "board_access_rows (d\<lparr>board_permissions := bp, board_group_permissions := bgp\<rparr>) b u
            = board_access_rows d b u" for b u
      by (simp add: board_access_rows_def)
    then show ?thesis by (simp add: checkBoardAccess_def split: option.split)
  qed
qed

theorem checkBoardAccess_membership_only_witness:
  "js_or (Some board1) None = Some board1 \<and> board1 \<noteq> [] \<and>
   checkBoardAccess budget_db bob (Some board1) None = Next \<and>
   checkBoardAccess
     (budget_db\<lparr>board_permissions := [\<lparr>lp_resource_id = board1, lp_subject_id = alice,
                                        lp_permission_level = ''view'', lp_granted_by = alice\<rparr>],
                 board_group_permissions := []\<rparr>) bob (Some board1) None = Next"
proof -
  have j: "js_or (Some board1) None = Some board1" and n: "board1 \<noteq> []"
    by (simp_all add: js_or_def sample_nonempty)
  have m: "\<exists>b \<in> set (boards budget_db). pg_uuid board1 = Some (b_id b) \<and>
              (\<exists>wm \<in> set (workspace_members budget_db).
                 wm_workspace_id wm = b_workspace_id b \<and> wm_user_id wm = bob)"
    by (simp add: budget_db_simps pg_uuid_samples)
  show ?thesis
    using checkBoardAccess_membership_only [OF j n, of budget_db bob] m j n
    by simp
qed
section \<open>The guards of the override handlers\<close>

lemma left_join_Cons: "\<exists>rest. left_join xs = (case xs of [] \<Rightarrow> None | x # _ \<Rightarrow> Some x) # rest"
  by (cases xs) (simp_all add: left_join_def)

lemma map_of_find:
  "map_of [(k x, v x). x \<leftarrow> xs] key = map_option v (find (\<lambda>x. k x = key) xs)"
  by (induction xs) auto

lemma first_filter_find:
  "(case filter P xs of [] \<Rightarrow> None | x # _ \<Rightarrow> Some x) = find P xs"
  by (induction xs) auto

lemma board_admin_rows_shape:
  "case find (\<lambda>b. b_id b = boardId) (boards d) of
     None \<Rightarrow> board_admin_rows d boardId requester = []
   | Some b0 \<Rightarrow> \<exists>rest. board_admin_rows d boardId requester
        = (map_option lp_permission_level
             (find (\<lambda>bp. level_key bp = (boardId, requester)) (board_permissions d)),
           b_workspace_id b0) # rest"
proof -
  define X where "X b = [bp \<leftarrow> board_permissions d. level_key bp = (b_id b, requester)]"
    for b :: board_row
  define Y where "Y b = [wm \<leftarrow> workspace_members d.
                wm_workspace_id wm = b_workspace_id b \<and> wm_user_id wm = requester]"
    for b :: board_row
  define R where "R bs = [(map_option lp_permission_level bp, b_workspace_id b).
        b \<leftarrow> bs, b_id b = boardId, bp \<leftarrow> left_join (X b), wm \<leftarrow> left_join (Y b)]"
    for bs :: "board_row list"
  have one: "\<exists>rest. [(map_option lp_permission_level bp, b_workspace_id b).
                 bp \<leftarrow> left_join (X b), wm \<leftarrow> left_join (Y b)]
       = (map_option lp_permission_level (find (\<lambda>bp. level_key bp = (b_id b, requester)) (board_permissions d)),
          b_workspace_id b) # rest" for b
  proof -
    obtain r1 where r1: "left_join (X b) = (find (\<lambda>bp. level_key bp = (b_id b, requester)) (board_permissions d)) # r1"
      using left_join_Cons [of "X b"] by (auto simp: X_def first_filter_find)
    obtain h2 r2 where r2: "left_join (Y b) = h2 # r2"
      using left_join_Cons [of "Y b"] by auto
    show ?thesis by (simp add: r1 r2)
  qed
  have "case find (\<lambda>b. b_id b = boardId) bs of
     None \<Rightarrow> R bs = []
   | Some b0 \<Rightarrow> \<exists>rest. R bs
        = (map_option lp_permission_level
             (find (\<lambda>bp. level_key bp = (boardId, requester)) (board_permissions d)),
           b_workspace_id b0) # rest" for bs
  proof (induction bs)
    case Nil
    then show ?case by (simp add: R_def)
  next
    case (Cons b bs)
    show ?case
    proof (cases "b_id b = boardId")
      case True
      from one [of b] obtain rest where "[(map_option lp_permission_level bp, b_workspace_id b).
                 bp \<leftarrow> left_join (X b), wm \<leftarrow> left_join (Y b)]
       = (map_option lp_permission_level (find (\<lambda>bp. level_key bp = (b_id b, requester)) (board_permissions d)),
          b_workspace_id b) # rest" by blast
      with True show ?thesis by (simp add: R_def)
    next
      case False
      then have "R (b # bs) = R bs" by (simp add: R_def)
      with Cons False show ?thesis by (simp split: option.splits)
    qed
  qed
  moreover have "R (boards d) = board_admin_rows d boardId requester"
    unfolding R_def X_def Y_def board_admin_rows_def by (rule refl)
  ultimately show ?thesis by metis
qed

lemma resource_workspace_Board:
  "resource_workspace d Board b = map_option b_workspace_id (find (\<lambda>x. b_id x = b) (boards d))"
  by (simp add: resource_workspace_def map_of_find)

lemma resource_workspace_Project:
  "resource_workspace d Project p = map_option pr_workspace_id (find (\<lambda>x. pr_id x = p) (sdsi_projects d))"
  by (simp add: resource_workspace_def map_of_find)

lemma ResourceOverride_Board:
  "ResourceOverride d Board k
     = map_option lp_permission_level (find (\<lambda>bp. level_key bp = k) (board_permissions d))"
  by (simp add: ResourceOverride_def user_overrides_def map_of_find)

lemma Membership_admin:
  "(Membership d (w, u) = Some ''owner'' \<or> Membership d (w, u) = Some ''admin'') \<longleftrightarrow>
     (case member_roles d w u of [] \<Rightarrow> False | role # _ \<Rightarrow> role \<in> set admin_roles)"
  by (auto simp: Membership_member_roles admin_roles_def split: list.splits)

lemma pg_uuid_Nil: "pg_uuid [] = None"
  by (simp add: pg_uuid_def hyphen_after_def)

text \<open>The two handlers, for a request that names a resource of the database: the guard,
  then the statement.\<close>

lemma setBoardPermission_unfold:
  assumes "pg_uuid boardId = Some b" and "resource_workspace d Board b = Some w"
  shows "setBoardPermission d q boardId userId pl =
     (if Membership d (w, q) \<in> {Some ''owner'', Some ''admin''} \<or>
         ResourceOverride d Board (b, q) = Some ''admin''
      then (case insert_level (users d) (board_permissions d) b userId pl q of
              Inl e \<Rightarrow> (d, Reply 500 (Error ''Erreur''))
            | Inr rows \<Rightarrow>
                (d\<lparr>board_permissions := rows\<rparr>, Reply 200 (Message ''Permission mise a jour'')))
      else (d, forbidden))"
proof -
  from assms(2) obtain b0 where f: "find (\<lambda>x. b_id x = b) (boards d) = Some b0"
    and w: "b_workspace_id b0 = w"
    by (auto simp: resource_workspace_Board)
  with board_admin_rows_shape [where boardId = b and d = d and requester = q] obtain rest where
    rows: "board_admin_rows d b q = (ResourceOverride d Board (b, q), w) # rest"
    by (auto simp: ResourceOverride_Board)
  show ?thesis
    by (cases "member_roles d w q")
      (simp_all add: setBoardPermission_def assms(1) rows Let_def Membership_admin forbidden_def)
qed

lemma setProjectPermission_unfold:
  assumes "pg_uuid projectId = Some p" and "resource_workspace d Project p = Some w"
  shows "setProjectPermission d q projectId userId pl =
     (if Membership d (w, q) \<in> {Some ''owner'', Some ''admin''}
      then (case insert_level (users d) (project_permissions d) p userId pl q of
              Inl e \<Rightarrow> (d, Reply 500 (Error ''Erreur''))
            | Inr rows \<Rightarrow>
                (d\<lparr>project_permissions := rows\<rparr>, Reply 200 (Message ''Permission mise a jour'')))
      else (d, forbidden))"
proof -
  from assms(2) have "(case project_workspaces d p of [] \<Rightarrow> None | y # _ \<Rightarrow> Some y) = Some w"
    unfolding resource_workspace_def project_workspaces_def
    using map_of_first_row [of pr_id pr_workspace_id "sdsi_projects d" p]
    by simp
  then obtain rest where rows: "project_workspaces d p = w # rest"
    by (cases "project_workspaces d p") simp_all
  show ?thesis
    by (cases "member_roles d w q")
      (simp_all add: setProjectPermission_def assms(1) rows Membership_admin forbidden_def)
qed


section \<open>Overrides are upserts\<close>

lemma level_key_update [simp]: "level_key (r\<lparr>lp_permission_level := l\<rparr>) = level_key r"
  by (simp add: level_key_def)

lemma level_key_row [simp]:
  "level_key \<lparr>lp_resource_id = b, lp_subject_id = u, lp_permission_level = l, lp_granted_by = g\<rparr>
     = (b, u)"
  by (simp add: level_key_def)



















text \<open>A level of more than 50 characters of which those in excess are spaces is stored, cut
  to 50 characters.\<close>

lemma stored_level_truncates:
  "stored_level (Some (''edit'' @ replicate 47 (CHR '' ''))) = Inr (''edit'' @ replicate 46 (CHR '' ''))"
  by (simp add: stored_level_def varchar_def list_all_iff)


section \<open>Deleting a role\<close>









section \<open>The resource-level guards\<close>

lemma board_guard:
  assumes "pg_uuid boardId = Some b" and "resource_workspace d Board b = Some w"
  shows "(snd (setBoardPermission d q boardId u pl) \<noteq> forbidden) \<longleftrightarrow>
           (Membership d (w, q) \<in> {Some ''owner'', Some ''admin''} \<or>
            ResourceOverride d Board (b, q) = Some ''admin'')"
  unfolding setBoardPermission_unfold [OF assms]
  by (cases "insert_level (users d) (board_permissions d) b u pl q")
    (simp_all add: forbidden_def)

lemma project_guard:
  assumes "pg_uuid projectId = Some p" and "resource_workspace d Project p = Some w"
  shows "(snd (setProjectPermission d q projectId u pl) \<noteq> forbidden) \<longleftrightarrow>
           Membership d (w, q) \<in> {Some ''owner'', Some ''admin''}"
  unfolding setProjectPermission_unfold [OF assms]
  by (cases "insert_level (users d) (project_permissions d) p u pl q")
    (simp_all add: forbidden_def)

lemma guards_ignore_groups:
  "snd (setBoardPermission (d\<lparr>user_groups := gs, user_group_members := gms,
          board_group_permissions := bgp, project_group_permissions := pgp\<rparr>) q b u pl)
     = snd (setBoardPermission d q b u pl)"
  "snd (setProjectPermission (d\<lparr>user_groups := gs, user_group_members := gms,
          board_group_permissions := bgp, project_group_permissions := pgp\<rparr>) q p u pl)
     = snd (setProjectPermission d q p u pl)"
proof -
  let ?d = "d\<lparr>user_groups := gs, user_group_members := gms,
          board_group_permissions := bgp, project_group_permissions := pgp\<rparr>"
  have "board_admin_rows ?d x q = board_admin_rows d x q" for x
    by (simp add: board_admin_rows_def cong: if_cong)
  moreover have "member_roles ?d x q = member_roles d x q" for x
    by (simp add: member_roles_def)
  ultimately show "snd (setBoardPermission ?d q b u pl) = snd (setBoardPermission d q b u pl)"
    by (simp add: setBoardPermission_def Let_def
        split: option.split list.split sum.split prod.split)
  have "member_roles ?d x q = member_roles d x q" for x
    by (simp add: member_roles_def)
  moreover have "project_workspaces ?d x = project_workspaces d x" for x
    by (simp add: project_workspaces_def)
  ultimately show "snd (setProjectPermission ?d q p u pl) = snd (setProjectPermission d q p u pl)"
    by (simp add: setProjectPermission_def split: option.split list.split sum.split)
qed

lemma member_passes_checkBoardAccess:
  assumes "pg_uuid boardId = Some b" and "resource_workspace d Board b = Some w"
    and "Membership d (w, q) \<noteq> None"
  shows "checkBoardAccess d q (Some boardId) None = Next"
proof -
  from assms(1) have n: "boardId \<noteq> []" by (auto simp: pg_uuid_Nil)
  from assms(2) obtain b0 where "find (\<lambda>x. b_id x = b) (boards d) = Some b0"
    and w: "b_workspace_id b0 = w"
    by (auto simp: resource_workspace_Board)
  then have b0: "b0 \<in> set (boards d)" "b_id b0 = b"
    by (auto simp: find_Some_iff)
  from assms(3) have "member_roles d w q \<noteq> []"
    by (auto simp: Membership_member_roles)
  then obtain wm where "wm \<in> set (workspace_members d)" "wm_workspace_id wm = w" "wm_user_id wm = q"
    by (auto simp: member_roles_def)
  with b0 w have "board_access_rows d b q \<noteq> []"
    unfolding board_access_rows_nonempty by blast
  moreover from n have "js_or (Some boardId) None = Some boardId" by (simp add: js_or_def)
  ultimately show ?thesis using checkBoardAccess_Next n assms(1) by blast
qed

text \<open>
  Claim C2, as the code has it. No handler computes an effective level. For a request that
  names a board of the database, the guard of \<^verbatim>\<open>POST /boards/:boardId/users/:userId\<close>,
  the one place that compares a level, lets the requester through exactly when the
  Membership role is owner or admin or the requester's own row of \<^verbatim>\<open>board_permissions\<close>
  holds the level \<^verbatim>\<open>admin\<close>; the guard of the project route looks at the Membership role
  only; \<^verbatim>\<open>checkBoardAccess\<close> lets every member of the board's workspace through; and the
  group tables change none of these answers.
\<close>

theorem resource_guards:
  "(pg_uuid boardId = Some b \<and> resource_workspace d Board b = Some w \<longrightarrow>
      ((snd (setBoardPermission d q boardId u pl) \<noteq> forbidden) \<longleftrightarrow>
         (Membership d (w, q) \<in> {Some ''owner'', Some ''admin''} \<or>
          ResourceOverride d Board (b, q) = Some ''admin''))) \<and>
   (pg_uuid projectId = Some p \<and> resource_workspace d Project p = Some w' \<longrightarrow>
      ((snd (setProjectPermission d q projectId u pl) \<noteq> forbidden) \<longleftrightarrow>
         Membership d (w', q) \<in> {Some ''owner'', Some ''admin''})) \<and>
   (pg_uuid boardId = Some b \<and> resource_workspace d Board b = Some w \<and>
    Membership d (w, q) \<noteq> None \<longrightarrow>
      checkBoardAccess d q (Some boardId) None = Next) \<and>
   snd (setBoardPermission (d\<lparr>user_groups := gs, user_group_members := gms,
          board_group_permissions := bgp, project_group_permissions := pgp\<rparr>) q boardId u pl)
     = snd (setBoardPermission d q boardId u pl) \<and>
   snd (setProjectPermission (d\<lparr>user_groups := gs, user_group_members := gms,
          board_group_permissions := bgp, project_group_permissions := pgp\<rparr>) q projectId u pl)
     = snd (setProjectPermission d q projectId u pl)"
proof (intro conjI impI)
  assume "pg_uuid boardId = Some b \<and> resource_workspace d Board b = Some w"
  then show "(snd (setBoardPermission d q boardId u pl) \<noteq> forbidden) \<longleftrightarrow>
         (Membership d (w, q) \<in> {Some ''owner'', Some ''admin''} \<or>
          ResourceOverride d Board (b, q) = Some ''admin'')"
    using board_guard by blast
next
  assume "pg_uuid projectId = Some p \<and> resource_workspace d Project p = Some w'"
  then show "(snd (setProjectPermission d q projectId u pl) \<noteq> forbidden) \<longleftrightarrow>
         Membership d (w', q) \<in> {Some ''owner'', Some ''admin''}"
    using project_guard by blast
next
  assume "pg_uuid boardId = Some b \<and> resource_workspace d Board b = Some w \<and>
    Membership d (w, q) \<noteq> None"
  then show "checkBoardAccess d q (Some boardId) None = Next"
    using member_passes_checkBoardAccess by blast
qed (rule guards_ignore_groups)+

lemmas eval_decide = DecideResource_def resource_workspace_def Membership_def directLevel_def
  ResourceOverride_def user_overrides_def groupLevel_def group_overrides_def level_rank_def
  level_key_def

theorem resource_guards_witness:
  "pg_uuid board1 = Some board1 \<and> pg_uuid project1 = Some project1 \<and>
   resource_workspace group_db Board board1 = Some ws1 \<and>
   resource_workspace group_db Project project1 = Some ws1 \<and>
   board1 \<noteq> [] \<and> Membership group_db (ws1, bob) = Some ''member'' \<and>
   ResourceOverride group_db Board (board1, bob) = None \<and>
   snd (setBoardPermission group_db bob board1 bob (Some ''admin'')) = forbidden \<and>
   snd (setProjectPermission group_db bob project1 bob (Some ''admin'')) = forbidden \<and>
   checkBoardAccess group_db bob (Some board1) None = Next"
proof -
  have b: "resource_workspace group_db Board board1 = Some ws1"
    and p: "resource_workspace group_db Project project1 = Some ws1"
    by (simp_all add: resource_workspace_def group_db_simps budget_db_simps)
  have n: "board1 \<noteq> []" by (simp add: sample_nonempty)
  have m: "Membership group_db (ws1, bob) = Some ''member''"
    by (simp add: Membership_def group_db_simps budget_db_simps sample_distinct)
  have o: "ResourceOverride group_db Board (board1, bob) = None"
    by (simp add: ResourceOverride_def user_overrides_def group_db_simps)
  show ?thesis
    using resource_guards [where d = group_db and boardId = board1 and b = board1 and w = ws1
        and q = bob and u = bob and pl = "Some ''admin''" and projectId = project1
        and p = project1 and w' = ws1]
      b p n m o
    by (simp add: pg_uuid_samples)
qed

text \<open>
  Claim C2 as the specification states it fails on the code. Bob, a plain member, belongs to
  a group that holds \<^verbatim>\<open>admin\<close> on the board: the effective level of the specification is
  admin, and the guard refuses him. Without any override his effective level is none, and
  \<^verbatim>\<open>checkBoardAccess\<close> lets him through.
\<close>

theorem DecideResource_counterexample:
  "DecideResource group_db bob Board board1 Admin = Some (Allow Override) \<and>
   snd (setBoardPermission group_db bob board1 bob (Some ''admin'')) = forbidden \<and>
   DecideResource budget_db bob Board board1 View = Some (Deny InsufficientLevel) \<and>
   checkBoardAccess budget_db bob (Some board1) None = Next"
proof -
  have 1: "DecideResource group_db bob Board board1 Admin = Some (Allow Override)"
    by (simp add: eval_decide group_db_simps budget_db_simps sample_distinct)
  have 2: "snd (setBoardPermission group_db bob board1 bob (Some ''admin'')) = forbidden"
    by (simp add: eval_setBoardPermission forbidden_def group_db_simps budget_db_simps)
  have 3: "DecideResource budget_db bob Board board1 View = Some (Deny InsufficientLevel)"
    by (simp add: eval_decide budget_db_simps budget_db_groups sample_distinct)
  have 4: "checkBoardAccess budget_db bob (Some board1) None = Next"
    by (simp add: checkBoardAccess_def board_access_rows_def js_or_def budget_db_simps
        pg_uuid_samples sample_distinct sample_nonempty)
  from 1 2 3 4 show ?thesis by blast
qed
section \<open>The audit log\<close>

text \<open>
  Claim C3 on the code. Of the administrative mutations only role creation (and role
  assignment) insert into \<^verbatim>\<open>permission_audit_logs\<close>. On the sample workspace a role
  update, a role deletion, the setting and the removal of a board permission and, with the
  group of the second sample, the two group-membership changes all succeed, change the
  tables, and leave the audit log empty.
\<close>

theorem mutations_without_audit_entry:
  "snd (updateRole budget_db alice role1 replace_with_view) = Reply 200 (Message ''Role mis a jour'') \<and>
   role_codes (fst (updateRole budget_db alice role1 replace_with_view)) role1 = [''budget.view''] \<and>
   permission_audit_logs (fst (updateRole budget_db alice role1 replace_with_view)) = [] \<and>
   snd (deleteRole budget_db alice role1) = Reply 200 (Message ''Role supprime'') \<and>
   workspace_roles (fst (deleteRole budget_db alice role1)) = [] \<and>
   permission_audit_logs (fst (deleteRole budget_db alice role1)) = [] \<and>
   snd (setBoardPermission budget_db alice board1 bob (Some ''edit''))
     = Reply 200 (Message ''Permission mise a jour'') \<and>
   board_permissions (fst (setBoardPermission budget_db alice board1 bob (Some ''edit'')))
     = [\<lparr>lp_resource_id = board1, lp_subject_id = bob, lp_permission_level = ''edit'',
         lp_granted_by = alice\<rparr>] \<and>
   permission_audit_logs (fst (setBoardPermission budget_db alice board1 bob (Some ''edit''))) = [] \<and>
   snd (removeBoardPermission (fst (setBoardPermission budget_db alice board1 bob (Some ''edit'')))
        board1 bob) = Reply 200 (Message ''Permission retiree'') \<and>
   board_permissions
     (fst (removeBoardPermission (fst (setBoardPermission budget_db alice board1 bob (Some ''edit'')))
        board1 bob)) = [] \<and>
   permission_audit_logs
     (fst (removeBoardPermission (fst (setBoardPermission budget_db alice board1 bob (Some ''edit'')))
        board1 bob)) = [] \<and>
   snd (addGroupMember group_db group1 alice) = Reply 200 (Message ''Membre ajoute'') \<and>
   user_group_members (fst (addGroupMember group_db group1 alice))
     = [\<lparr>gm_group_id = group1, gm_user_id = bob\<rparr>, \<lparr>gm_group_id = group1, gm_user_id = alice\<rparr>] \<and>
   permission_audit_logs (fst (addGroupMember group_db group1 alice)) = [] \<and>
   snd (removeGroupMember group_db group1 bob) = Reply 200 (Message ''Membre retire'') \<and>
   user_group_members (fst (removeGroupMember group_db group1 bob)) = [] \<and>
   permission_audit_logs (fst (removeGroupMember group_db group1 bob)) = []"
proof -
  have del: "deleteRole budget_db alice role1
      = (delete_workspace_role budget_db role1, Reply 200 (Message ''Role supprime''))"
    by (simp add: deleteRole_def eval_roles budget_db_simps budget_db_roles)
  have set: "setBoardPermission budget_db alice board1 bob (Some ''edit'')
      = (budget_db\<lparr>board_permissions :=
           [\<lparr>lp_resource_id = board1, lp_subject_id = bob, lp_permission_level = ''edit'',
             lp_granted_by = alice\<rparr>]\<rparr>, Reply 200 (Message ''Permission mise a jour''))"
    by (simp add: eval_setBoardPermission budget_db_simps)
  have add: "addGroupMember group_db group1 alice
      = (group_db\<lparr>user_group_members :=
           [\<lparr>gm_group_id = group1, gm_user_id = bob\<rparr>, \<lparr>gm_group_id = group1, gm_user_id = alice\<rparr>]\<rparr>,
         Reply 200 (Message ''Membre ajoute''))"
    by (simp add: addGroupMember_def group_db_simps pg_uuid_samples sample_distinct)
  have rem: "removeGroupMember group_db group1 bob
      = (group_db\<lparr>user_group_members := []\<rparr>, Reply 200 (Message ''Membre retire''))"
    by (simp add: removeGroupMember_def group_db_simps pg_uuid_samples)
  show ?thesis
    unfolding updateRole_view del set add rem
    by (simp add: role_codes_def delete_workspace_role_def removeBoardPermission_def
        delete_level_def level_key_def budget_db_logs budget_db_simps budget_db_roles
        group_db_simps pg_uuid_samples sample_distinct)
qed

text \<open>The foreign key of a group membership: without the group the statement throws, the
  handler answers 500 and stores nothing.\<close>

lemma addGroupMember_without_group:
  "addGroupMember budget_db group1 bob = (budget_db, Reply 500 (Error ''Erreur''))"
  by (simp add: addGroupMember_def budget_db_groups budget_db_logs pg_uuid_samples)

lemma insert_role_permission_do_nothing_other:
  "workspace_roles (insert_role_permission_do_nothing d r p) = workspace_roles d"
  "permissions (insert_role_permission_do_nothing d r p) = permissions d"
  "permission_audit_logs (insert_role_permission_do_nothing d r p) = permission_audit_logs d"
  by (simp_all add: insert_role_permission_do_nothing_def)

lemma permission_ids_cong:
  "permissions d' = permissions d \<Longrightarrow> permission_ids d' c = permission_ids d c"
  by (simp add: permission_ids_def)

lemma add_permissions_other:
  "workspace_roles (add_permissions d r cs) = workspace_roles d \<and>
   permissions (add_permissions d r cs) = permissions d \<and>
   permission_audit_logs (add_permissions d r cs) = permission_audit_logs d"
proof (induction cs arbitrary: d)
  case Nil
  then show ?case by simp
next
  case (Cons c cs)
  show ?case
    by (cases "permission_ids d c") (simp_all add: Cons insert_role_permission_do_nothing_other)
qed

lemma create_role_error_not_201: "create_role_error e \<noteq> Reply 201 b"
  by (simp add: create_role_error_def)

lemma insert_workspace_role_Inr:
  "insert_workspace_role d r = Inr (role, d1) \<Longrightarrow>
     r_id role = r_id r \<and> d1 = d\<lparr>workspace_roles := workspace_roles d @ [role]\<rparr>"
  by (auto simp: insert_workspace_role_def Let_def split: sum.splits if_splits)

text \<open>
  Claim C5, as the code has it. When a role creation would succeed and the audit insertion
  fails, the role and its grants are committed all the same (the state is the one of the
  successful request without the audit row), no audit row is written, and the caller gets
  the error reply of the handler (400 or 500), never the 201.
\<close>

theorem createRole_audit_failure:
  assumes "snd (createRole d newId None q req) = Reply 201 b"
  shows "snd (createRole d newId (Some e) q req) = create_role_error e \<and>
         create_role_error e \<noteq> Reply 201 b \<and>
         (\<exists>a. fst (createRole d newId None q req)
                = (fst (createRole d newId (Some e) q req))
                    \<lparr>permission_audit_logs := permission_audit_logs d @ [a]\<rparr>) \<and>
         permission_audit_logs (fst (createRole d newId (Some e) q req)) = permission_audit_logs d \<and>
         newId \<in> r_id ` set (workspace_roles (fst (createRole d newId (Some e) q req)))"
proof -
  define color where "color = (case js_or (cr_color req) None of None \<Rightarrow> ''#6366f1'' | Some c \<Rightarrow> c)"
  from assms have valid: "isUUID (cr_workspaceId req) \<and> trim (cr_name req) \<noteq> []"
    by (auto simp: createRole_def split: if_splits)
  from assms valid obtain w where p: "pg_uuid (cr_workspaceId req) = Some w"
    by (cases "pg_uuid (cr_workspaceId req)")
      (auto simp: createRole_def Let_def create_role_error_not_201)
  define row where "row = \<lparr>r_id = newId, r_workspace_id = w,
      r_name = trim (cr_name req), r_description = cr_description req, r_color = color\<rparr>"
  from assms valid p obtain member_role rest where m: "member_roles d w q = member_role # rest"
    by (cases "member_roles d w q") (auto simp: createRole_def Let_def)
  from assms valid p m have adm: "member_role \<in> set admin_roles"
    by (auto simp: createRole_def Let_def split: if_splits)
  from assms valid p m adm obtain role d1 where ins: "insert_workspace_role d row = Inr (role, d1)"
    by (cases "insert_workspace_role d row")
      (auto simp: createRole_def Let_def row_def color_def ROLLBACK_def create_role_error_not_201)
  define d2 where "d2 = (case cr_permissions req of
                                  None \<Rightarrow> d1
                                | Some perms \<Rightarrow>
                                    if length perms > 0
                                    then add_permissions d1 (r_id role) perms else d1)"
  from ins have id: "r_id role = newId"
    and d1: "d1 = d\<lparr>workspace_roles := workspace_roles d @ [role]\<rparr>"
    using insert_workspace_role_Inr [of d row role d1] by (simp_all add: row_def)
  have d2: "workspace_roles d2 = workspace_roles d @ [role]"
       "permission_audit_logs d2 = permission_audit_logs d"
    by (simp_all add: d2_def d1 add_permissions_other split: option.splits)
  have fail: "createRole d newId (Some e) q req = (d2, create_role_error e)"
    using valid p m adm ins
    by (simp add: createRole_def Let_def row_def [symmetric] color_def [symmetric]
        d2_def [symmetric] insert_audit_def ROLLBACK_def)
  have ok: "\<exists>a. fst (createRole d newId None q req)
      = d2\<lparr>permission_audit_logs := permission_audit_logs d2 @ [a]\<rparr>"
    using valid p m adm ins
    by (simp add: createRole_def Let_def row_def [symmetric] color_def [symmetric]
        d2_def [symmetric] insert_audit_def) blast
  show ?thesis
    using ok by (simp add: fail d2 create_role_error_not_201 id)
qed

theorem createRole_audit_failure_witness:
  "snd (createRole budget_db role2 None alice viewer_role_body)
     = Reply 201 (RoleJson role2 ''Budget Viewer'' None ''#6366f1'' [''budget.view'', ''budget.view'']) \<and>
   snd (createRole budget_db role2 (Some ''57P01'') alice viewer_role_body)
     = create_role_error ''57P01'' \<and>
   permission_audit_logs (fst (createRole budget_db role2 (Some ''57P01'') alice viewer_role_body))
     = permission_audit_logs budget_db \<and>
   role2 \<in> r_id ` set (workspace_roles
                (fst (createRole budget_db role2 (Some ''57P01'') alice viewer_role_body)))"
proof -
  have ok: "snd (createRole budget_db role2 None alice viewer_role_body)
     = Reply 201 (RoleJson role2 ''Budget Viewer'' None ''#6366f1'' [''budget.view'', ''budget.view''])"
    unfolding createRole_viewer by (simp add: Let_def)
  from createRole_audit_failure [OF ok, of "''57P01''"] ok show ?thesis
    by blast
qed

text \<open>
  Claim C5 as the specification states it fails on the code: with a failing audit insertion
  the caller of a role creation is answered 500, although the role has been created.
\<close>

theorem createRole_audit_failure_counterexample:
  "snd (createRole budget_db role2 (Some ''08006'') alice viewer_role_body)
     = Reply 500 (Error ''Erreur'') \<and>
   role2 \<in> r_id ` set (workspace_roles (fst (createRole budget_db role2 (Some ''08006'') alice viewer_role_body))) \<and>
   permission_audit_logs (fst (createRole budget_db role2 (Some ''08006'') alice viewer_role_body)) = []"
  unfolding createRole_viewer
  by (simp add: create_role_error_def unique_violation_def budget_db_logs Let_def)


section \<open>The owner of a workspace\<close>

text \<open>The guard of the removal compares texts. A request that names the owner by the
  identifier as the database prints it is refused.\<close>

lemma removeMember_refuses_owner_id:
  assumes "pg_uuid workspaceId = Some w"
    and "[w_owner_id x. x \<leftarrow> workspaces d, w_id x = w] = owner_id # rest"
  shows "fst (removeMember d userId workspaceId owner_id) = d"
proof (cases "checkWorkspaceAccess d userId (Some workspaceId) None")
  case (Inl r)
  then show ?thesis by (simp add: removeMember_def)
next
  case (Inr workspaceRole)
  with assms show ?thesis by (simp add: removeMember_def)
qed

text \<open>A request that writes the owner's identifier in another way, here in upper case,
  passes the guard, and the query removes the owner's membership: Alice, the owner and only
  member of her workspace, removes herself.\<close>

lemma removeMember_removes_owner:
  "removeMember (fst (createWorkspace empty_db ws1 alice ''Acme'')) alice ws1
       ''A0000000-0000-4000-8000-00000000000A''
     = ((fst (createWorkspace empty_db ws1 alice ''Acme''))\<lparr>workspace_members := []\<rparr>,
        Reply 200 (Message ''Membre retire avec succes''))"
proof -
  let ?d1 = "fst (createWorkspace empty_db ws1 alice ''Acme'')"
  have d1: "?d1 = empty_db\<lparr>workspaces := [\<lparr>w_id = ws1, w_owner_id = alice\<rparr>],
      workspace_members := [\<lparr>wm_workspace_id = ws1, wm_user_id = alice, wm_role = ''owner''\<rparr>]\<rparr>"
    by (simp add: createWorkspace_def trim_def js_space_def varchar_def empty_db_def)
  have p: "pg_uuid ''A0000000-0000-4000-8000-00000000000A'' = Some alice"
    by (simp add: pg_uuid_def hyphen_after_def is_hex_def lower_def uuid_out_def alice_def)
  have n: "alice \<noteq> ''A0000000-0000-4000-8000-00000000000A''"
    by (simp add: alice_def)
  show ?thesis
    unfolding d1
    by (simp add: removeMember_def checkWorkspaceAccess_def js_or_def member_roles_def
        admin_roles_def p n pg_uuid_samples sample_nonempty empty_db_def)
qed

text \<open>
  Claim C4 on the code. Alice creates a workspace and is its only owner. She then transfers
  the ownership to herself: the request is accepted, the second update of the handler
  overwrites the role \<^verbatim>\<open>owner\<close> that the first one has just set, and the workspace is left
  with no holder of the role \<^verbatim>\<open>owner\<close>.
\<close>

theorem transferOwnership_to_self_leaves_no_owner:
  "owners (fst (createWorkspace empty_db ws1 alice ''Acme'')) ws1 = [alice] \<and>
   snd (transferOwnership (fst (createWorkspace empty_db ws1 alice ''Acme'')) alice ws1 alice)
     = Reply 200 (Message ''Propriete transferee avec succes'') \<and>
   owners (fst (transferOwnership (fst (createWorkspace empty_db ws1 alice ''Acme'')) alice ws1 alice))
     ws1 = [] \<and>
   workspace_members
     (fst (transferOwnership (fst (createWorkspace empty_db ws1 alice ''Acme'')) alice ws1 alice))
     = [\<lparr>wm_workspace_id = ws1, wm_user_id = alice, wm_role = ''admin''\<rparr>]"
proof -
  let ?d1 = "fst (createWorkspace empty_db ws1 alice ''Acme'')"
  have d1: "?d1 = empty_db\<lparr>workspaces := [\<lparr>w_id = ws1, w_owner_id = alice\<rparr>],
      workspace_members := [\<lparr>wm_workspace_id = ws1, wm_user_id = alice, wm_role = ''owner''\<rparr>]\<rparr>"
    by (simp add: createWorkspace_def trim_def js_space_def varchar_def empty_db_def)
  have t: "transferOwnership ?d1 alice ws1 alice =
      (?d1\<lparr>workspace_members := [\<lparr>wm_workspace_id = ws1, wm_user_id = alice, wm_role = ''admin''\<rparr>]\<rparr>,
       Reply 200 (Message ''Propriete transferee avec succes''))"
    unfolding d1
    by (simp add: transferOwnership_def checkWorkspaceAccess_def js_or_def member_roles_def
        isUUID_samples pg_uuid_samples sample_nonempty set_workspace_owner_def
        set_member_role_def Let_def empty_db_def)
  show ?thesis
    unfolding t unfolding d1 by (simp add: owners_def empty_db_def)
qed
section \<open>The codes of a role\<close>

text \<open>
  Claim C10 on the code. A role update whose list names a catalogued code twice is refused
  with 500 and leaves the grants of the role as they were, where the claim promises the
  grant \<^verbatim>\<open>budget.view\<close>; role creation takes the same list (its insertion has
  \<^verbatim>\<open>ON CONFLICT DO NOTHING\<close>) and grants the code once.
\<close>

theorem updateRole_rejects_repeated_code:
  "updateRole budget_db alice role1 replace_with_view_twice = (budget_db, Reply 500 (Error ''Erreur'')) \<and>
   role_codes budget_db role1 = [''budget.edit''] \<and>
   snd (createRole budget_db role2 None alice viewer_role_body)
     = Reply 201 (RoleJson role2 ''Budget Viewer'' None ''#6366f1'' [''budget.view'', ''budget.view'']) \<and>
   role_codes (fst (createRole budget_db role2 None alice viewer_role_body)) role2 = [''budget.view'']"
  unfolding updateRole_view_twice createRole_viewer
  by (simp add: role_codes_def budget_db_simps sample_distinct Let_def)


















end
